theory Spec2Isabelle
  imports Complex_Main "HOL-Library.AList"
begin

section \<open>The Azure OpenAI generator: construction and (de)serialization\<close>

text \<open>
  A shallow embedding of \<^verbatim>\<open>haystack/components/generators/azure.py\<close>: the constructor
  \<^verbatim>\<open>AzureOpenAIGenerator.__init__\<close>, \<^verbatim>\<open>to_dict\<close> and \<^verbatim>\<open>from_dict\<close>.
  Exceptions are values of a sum type, \<^verbatim>\<open>os.environ\<close> is an explicit map, and everything the
  file calls but does not define is either a parameter (Python's builtins and the OpenAI SDK)
  or a definition written from the specification (the framework helpers of
  \<^verbatim>\<open>haystack.utils\<close> and \<^verbatim>\<open>haystack.core\<close>).
\<close>

subsection \<open>Values, errors and the environment\<close>

text \<open>\<^verbatim>\<open>os.environ\<close>: a set variable has a value, possibly the empty string.\<close>

type_synonym environ = "string \<rightharpoonup> string"

text \<open>
  The two \<^verbatim>\<open>ValueError\<close>s that \<^verbatim>\<open>__init__\<close> raises itself (lines 125 and 128) are the
  specification's ConfigurationError; they are told apart by the check that raised them.
  The other errors are named after where they come from: the \<^verbatim>\<open>ValueError\<close> of \<^verbatim>\<open>float\<close> and
  of \<^verbatim>\<open>int\<close> with the offending string, the specification's ResolutionError with the name
  that could not be resolved, the refusal to serialize or deserialize a secret, Python's
  \<^verbatim>\<open>KeyError\<close> and \<^verbatim>\<open>TypeError\<close> with the key concerned, and whatever the SDK constructor
  raises, with its message.
\<close>

datatype config_issue = EndpointMissing | CredentialMissing

datatype error =
    ConfigurationError config_issue
  | FloatParseError string
  | IntParseError string
  | ResolutionError string
  | SerializationError
  | DeserializationError string
  | KeyError string
  | TypeError string
  | ClientError string

text \<open>
  A secret reference is a literal or the name of an environment variable with a strictness
  flag (\<^verbatim>\<open>Secret.from_token\<close>, \<^verbatim>\<open>Secret.from_env_var\<close>); a callable is known by the name
  under which it reports itself. Both are objects of the framework, described below.
\<close>

datatype secret = TokenSecret string | EnvVarSecret string bool

datatype callable = Callable string

text \<open>
  Plain Python data as it occurs in a serialization document and in the open-ended
  dictionaries \<^verbatim>\<open>generation_kwargs\<close> and \<^verbatim>\<open>default_headers\<close>. A dictionary is an association
  list (Python dictionaries keep insertion order). \<open>PEnvVar\<close> is the serialized form of an
  environment-variable secret reference: the variable's name and the strictness flag.
  \<open>PSecret\<close> and \<open>PCallable\<close> are the objects that \<^verbatim>\<open>from_dict\<close> puts into the dictionary
  in place of their serialized forms.
\<close>

datatype pyval =
    PNone
  | PBool bool
  | PInt int
  | PFloat real
  | PStr string
  | PList "pyval list"
  | PDict "(string \<times> pyval) list"
  | PEnvVar string bool
  | PSecret secret
  | PCallable callable

type_synonym pydict = "(string \<times> pyval) list"

subsection \<open>Framework collaborators\<close>

text \<open>
  Modelled from the spec: the class \<^verbatim>\<open>haystack.utils.Secret\<close>, which this file uses through
  \<^verbatim>\<open>Secret.from_env_var\<close>, \<^verbatim>\<open>Secret.from_token\<close>, \<^verbatim>\<open>resolve_value\<close> and \<^verbatim>\<open>to_dict\<close>. The
  specification describes a tagged variant "Literal(value) or EnvVar(name)" with a single
  resolve operation; the \<^verbatim>\<open>strict\<close> flag is the one passed at lines 62 and 63.
\<close>

definition from_token :: "string \<Rightarrow> secret" where
  "from_token t = TokenSecret t"

definition from_env_var :: "string \<Rightarrow> bool \<Rightarrow> secret" where
  "from_env_var name strict = EnvVarSecret name strict"

text \<open>
  Modelled from the spec: \<^verbatim>\<open>Secret.resolve_value\<close>. A literal yields its value; a lookup
  reads the variable when it is used, fails with the specification's ResolutionError when the
  variable is "absent when required" (a strict reference), and yields \<^verbatim>\<open>None\<close> when it is
  absent and not required.
\<close>

fun resolve_value :: "environ \<Rightarrow> secret \<Rightarrow> error + string option" where
  "resolve_value env (TokenSecret t) = Inr (Some t)"
| "resolve_value env (EnvVarSecret name strict) =
     (case env name of
        Some v \<Rightarrow> Inr (Some v)
      | None \<Rightarrow> if strict then Inl (ResolutionError name) else Inr None)"

text \<open>
  Modelled from the spec: \<^verbatim>\<open>Secret.to_dict\<close> and \<^verbatim>\<open>Secret.from_dict\<close>. The serialized form of
  a lookup names the variable. A secret is "never serialized in resolved form", and a literal
  has no other form, so serializing a literal is refused.
\<close>

fun Secret_to_dict :: "secret \<Rightarrow> error + pyval" where
  "Secret_to_dict (EnvVarSecret name strict) = Inr (PEnvVar name strict)"
| "Secret_to_dict (TokenSecret t) = Inl SerializationError"

fun Secret_from_dict :: "pyval \<Rightarrow> error + secret" where
  "Secret_from_dict (PEnvVar name strict) = Inr (EnvVarSecret name strict)"
| "Secret_from_dict _ = Inl (DeserializationError ''secret'')"

text \<open>
  Modelled from the spec: the callable-naming helpers \<^verbatim>\<open>serialize_callable\<close> and
  \<^verbatim>\<open>deserialize_callable\<close>, "a named-registry lookup (handle \<open>\<leftrightarrow>\<close> name) external to this
  component". A callable is identified with the name under which it reports itself;
  deserialization fails with ResolutionError when "the named handler cannot be located".
\<close>

fun serialize_callable :: "callable \<Rightarrow> string" where
  "serialize_callable (Callable name) = name"

definition deserialize_callable :: "(string \<Rightarrow> bool) \<Rightarrow> string \<Rightarrow> error + callable" where
  "deserialize_callable locatable name =
     (if locatable name then Inr (Callable name) else Inl (ResolutionError name))"

subsection \<open>What lies outside the repository\<close>

text \<open>
  The keyword arguments of the call \<^verbatim>\<open>AzureOpenAI(...)\<close> at lines 147 to 158, in the order in
  which they are written.
\<close>

record client_kwargs =
  k_api_version :: "string option"
  k_azure_endpoint :: string
  k_azure_deployment :: "string option"
  k_azure_ad_token_provider :: "callable option"
  k_api_key :: "string option"
  k_azure_ad_token :: "string option"
  k_organization :: "string option"
  k_timeout :: real
  k_max_retries :: int
  k_default_headers :: pydict

text \<open>
  Python's builtins \<^verbatim>\<open>float\<close> and \<^verbatim>\<open>int\<close> on strings (\<open>None\<close> is their \<^verbatim>\<open>ValueError\<close>), the
  SDK constructor \<^verbatim>\<open>openai.lib.azure.AzureOpenAI\<close> (which may reject its arguments with a
  message of its own, and may read the environment), and the names under which a callable can
  be imported. None of them is code of this repository: every theorem below holds for all of
  them.
\<close>

record 'cl platform =
  py_float :: "string \<Rightarrow> real option"
  py_int :: "string \<Rightarrow> int option"
  AzureOpenAI :: "environ \<Rightarrow> client_kwargs \<Rightarrow> string + 'cl"
  locatable :: "string \<Rightarrow> bool"

subsection \<open>Python idioms used by the file\<close>

text \<open>An argument of a call is passed or omitted; an omitted one takes the default.\<close>

datatype 'a arg = Omitted | Passed 'a

fun default_to :: "'a \<Rightarrow> 'a arg \<Rightarrow> 'a" where
  "default_to d Omitted = d"
| "default_to d (Passed v) = v"

text \<open>Truthiness of an \<^verbatim>\<open>Optional[str]\<close>: \<^verbatim>\<open>None\<close> and the empty string are falsy.\<close>

fun truthy_str :: "string option \<Rightarrow> bool" where
  "truthy_str None = False"
| "truthy_str (Some s) = (s \<noteq> [])"

text \<open>\<^verbatim>\<open>x or y\<close> on optional strings.\<close>

definition or_str :: "string option \<Rightarrow> string option \<Rightarrow> string option" where
  "or_str x y = (if truthy_str x then x else y)"

text \<open>\<^verbatim>\<open>d or {}\<close> on an optional dictionary: \<^verbatim>\<open>None\<close> and the empty dictionary are falsy.\<close>

fun or_empty :: "pydict option \<Rightarrow> pydict" where
  "or_empty None = []"
| "or_empty (Some d) = (if d = [] then [] else d)"

text \<open>\<^verbatim>\<open>x or "literal"\<close> on an optional string.\<close>

fun or_literal :: "string option \<Rightarrow> string \<Rightarrow> string" where
  "or_literal None lit = lit"
| "or_literal (Some s) lit = (if s = [] then lit else s)"

text \<open>\<^verbatim>\<open>os.environ.get(name, fallback)\<close>.\<close>

definition environ_get :: "environ \<Rightarrow> string \<Rightarrow> string \<Rightarrow> string" where
  "environ_get env name fallback = (case env name of Some v \<Rightarrow> v | None \<Rightarrow> fallback)"

text \<open>Sequencing of computations that may raise.\<close>

fun and_then :: "error + 'a \<Rightarrow> ('a \<Rightarrow> error + 'b) \<Rightarrow> error + 'b" where
  "and_then (Inl e) f = Inl e"
| "and_then (Inr v) f = f v"

text \<open>\<^verbatim>\<open>s.resolve_value() if s is not None else None\<close>.\<close>

fun resolve_opt :: "environ \<Rightarrow> secret option \<Rightarrow> error + string option" where
  "resolve_opt env None = Inr None"
| "resolve_opt env (Some s) = resolve_value env s"

subsection \<open>The component and its constructor\<close>

text \<open>The attributes that \<^verbatim>\<open>__init__\<close> assigns (lines 132 to 147).\<close>

record 'cl component =
  api_key :: "secret option"
  azure_ad_token :: "secret option"
  generation_kwargs :: pydict
  system_prompt :: "string option"
  streaming_callback :: "callable option"
  api_version :: "string option"
  azure_endpoint :: string
  azure_deployment :: "string option"
  organization :: "string option"
  model :: string
  timeout :: real
  max_retries :: int
  default_headers :: pydict
  azure_ad_token_provider :: "callable option"
  client :: 'cl

text \<open>The arguments of one call of the constructor (lines 59 to 72).\<close>

record call_args =
  arg_azure_endpoint :: "string option arg"
  arg_api_version :: "string option arg"
  arg_azure_deployment :: "string option arg"
  arg_api_key :: "secret option arg"
  arg_azure_ad_token :: "secret option arg"
  arg_organization :: "string option arg"
  arg_streaming_callback :: "callable option arg"
  arg_system_prompt :: "string option arg"
  arg_timeout :: "real option arg"
  arg_max_retries :: "int option arg"
  arg_generation_kwargs :: "pydict option arg"
  arg_default_headers :: "pydict option arg"
  arg_azure_ad_token_provider :: "callable option arg"

text \<open>The call \<^verbatim>\<open>AzureOpenAIGenerator()\<close> with no argument at all.\<close>

definition no_args :: call_args where
  "no_args = \<lparr>
     arg_azure_endpoint = Omitted, arg_api_version = Omitted, arg_azure_deployment = Omitted,
     arg_api_key = Omitted, arg_azure_ad_token = Omitted, arg_organization = Omitted,
     arg_streaming_callback = Omitted, arg_system_prompt = Omitted, arg_timeout = Omitted,
     arg_max_retries = Omitted, arg_generation_kwargs = Omitted, arg_default_headers = Omitted,
     arg_azure_ad_token_provider = Omitted \<rparr>"

text \<open>The parameters after the defaults of the signature are bound (lines 59 to 72).\<close>

definition p_azure_endpoint :: "call_args \<Rightarrow> string option" where
  "p_azure_endpoint a = default_to None (arg_azure_endpoint a)"

definition p_api_version :: "call_args \<Rightarrow> string option" where
  "p_api_version a = default_to (Some ''2023-05-15'') (arg_api_version a)"

definition p_azure_deployment :: "call_args \<Rightarrow> string option" where
  "p_azure_deployment a = default_to (Some ''gpt-4o-mini'') (arg_azure_deployment a)"

definition p_api_key :: "call_args \<Rightarrow> secret option" where
  "p_api_key a =
     default_to (Some (from_env_var ''AZURE_OPENAI_API_KEY'' False)) (arg_api_key a)"

definition p_azure_ad_token :: "call_args \<Rightarrow> secret option" where
  "p_azure_ad_token a =
     default_to (Some (from_env_var ''AZURE_OPENAI_AD_TOKEN'' False)) (arg_azure_ad_token a)"

definition p_organization :: "call_args \<Rightarrow> string option" where
  "p_organization a = default_to None (arg_organization a)"

definition p_streaming_callback :: "call_args \<Rightarrow> callable option" where
  "p_streaming_callback a = default_to None (arg_streaming_callback a)"

definition p_system_prompt :: "call_args \<Rightarrow> string option" where
  "p_system_prompt a = default_to None (arg_system_prompt a)"

definition p_timeout :: "call_args \<Rightarrow> real option" where
  "p_timeout a = default_to None (arg_timeout a)"

definition p_max_retries :: "call_args \<Rightarrow> int option" where
  "p_max_retries a = default_to None (arg_max_retries a)"

definition p_generation_kwargs :: "call_args \<Rightarrow> pydict option" where
  "p_generation_kwargs a = default_to None (arg_generation_kwargs a)"

definition p_default_headers :: "call_args \<Rightarrow> pydict option" where
  "p_default_headers a = default_to None (arg_default_headers a)"

definition p_azure_ad_token_provider :: "call_args \<Rightarrow> callable option" where
  "p_azure_ad_token_provider a = default_to None (arg_azure_ad_token_provider a)"

text \<open>Line 123: \<^verbatim>\<open>azure_endpoint or os.environ.get("AZURE_OPENAI_ENDPOINT")\<close>.\<close>

definition resolved_endpoint :: "environ \<Rightarrow> call_args \<Rightarrow> string option" where
  "resolved_endpoint env a = or_str (p_azure_endpoint a) (env ''AZURE_OPENAI_ENDPOINT'')"

text \<open>Line 142: the argument if it is not \<^verbatim>\<open>None\<close>, else \<^verbatim>\<open>float\<close> of the variable or of "30.0".\<close>

definition effective_timeout :: "'cl platform \<Rightarrow> environ \<Rightarrow> call_args \<Rightarrow> error + real" where
  "effective_timeout w env a =
     (case p_timeout a of
        Some t \<Rightarrow> Inr t
      | None \<Rightarrow>
          (let s = environ_get env ''OPENAI_TIMEOUT'' ''30.0'' in
           case py_float w s of None \<Rightarrow> Inl (FloatParseError s) | Some t \<Rightarrow> Inr t))"

text \<open>Line 143: the argument if it is not \<^verbatim>\<open>None\<close>, else \<^verbatim>\<open>int\<close> of the variable or of "5".\<close>

definition effective_max_retries :: "'cl platform \<Rightarrow> environ \<Rightarrow> call_args \<Rightarrow> error + int" where
  "effective_max_retries w env a =
     (case p_max_retries a of
        Some n \<Rightarrow> Inr n
      | None \<Rightarrow>
          (let s = environ_get env ''OPENAI_MAX_RETRIES'' ''5'' in
           case py_int w s of None \<Rightarrow> Inl (IntParseError s) | Some n \<Rightarrow> Inr n))"

text \<open>
  The arguments of the SDK constructor (lines 148 to 157), given the two resolved secrets.
\<close>

definition client_kwargs_of ::
  "call_args \<Rightarrow> string \<Rightarrow> real \<Rightarrow> int \<Rightarrow> string option \<Rightarrow> string option \<Rightarrow> client_kwargs"
  where
  "client_kwargs_of a endpoint t n key token =
     \<lparr> k_api_version = p_api_version a,
       k_azure_endpoint = endpoint,
       k_azure_deployment = p_azure_deployment a,
       k_azure_ad_token_provider = p_azure_ad_token_provider a,
       k_api_key = key,
       k_azure_ad_token = token,
       k_organization = p_organization a,
       k_timeout = t,
       k_max_retries = n,
       k_default_headers = or_empty (p_default_headers a) \<rparr>"

text \<open>
  Lines 152 and 153: \<^verbatim>\<open>s.resolve_value() if s is not None else None\<close>, for the key and then
  for the token. They are the only resolutions in the file, and either may raise.
\<close>

definition client_arguments ::
  "environ \<Rightarrow> call_args \<Rightarrow> string \<Rightarrow> real \<Rightarrow> int \<Rightarrow> error + client_kwargs" where
  "client_arguments env a endpoint t n =
     and_then (resolve_opt env (p_api_key a)) (\<lambda>key.
     and_then (resolve_opt env (p_azure_ad_token a)) (\<lambda>token.
       Inr (client_kwargs_of a endpoint t n key token)))"

text \<open>Line 147: the SDK constructor is called; what it raises propagates.\<close>

definition build_client :: "'cl platform \<Rightarrow> environ \<Rightarrow> client_kwargs \<Rightarrow> error + 'cl" where
  "build_client w env k =
     (case AzureOpenAI w env k of Inl msg \<Rightarrow> Inl (ClientError msg) | Inr cl \<Rightarrow> Inr cl)"

text \<open>The attribute assignments of lines 132 to 147.\<close>

definition assemble :: "call_args \<Rightarrow> string \<Rightarrow> real \<Rightarrow> int \<Rightarrow> 'cl \<Rightarrow> 'cl component" where
  "assemble a endpoint t n cl =
     \<lparr> api_key = p_api_key a,
       azure_ad_token = p_azure_ad_token a,
       generation_kwargs = or_empty (p_generation_kwargs a),
       system_prompt = p_system_prompt a,
       streaming_callback = p_streaming_callback a,
       api_version = p_api_version a,
       azure_endpoint = endpoint,
       azure_deployment = p_azure_deployment a,
       organization = p_organization a,
       model = or_literal (p_azure_deployment a) ''gpt-4o-mini'',
       timeout = t,
       max_retries = n,
       default_headers = or_empty (p_default_headers a),
       azure_ad_token_provider = p_azure_ad_token_provider a,
       client = cl \<rparr>"

text \<open>
  \<^verbatim>\<open>AzureOpenAIGenerator.__init__\<close> (lines 123 to 158), in the order of the source: the
  endpoint check, the credential check, the two numeric defaults, the resolution of the
  secrets, the client. No attribute is observable when the constructor raises, so the
  assignments are written last.
\<close>

definition init :: "'cl platform \<Rightarrow> environ \<Rightarrow> call_args \<Rightarrow> error + 'cl component" where
  "init w env a =
     (case resolved_endpoint env a of
        None \<Rightarrow> Inl (ConfigurationError EndpointMissing)
      | Some endpoint \<Rightarrow>
          if endpoint = [] then Inl (ConfigurationError EndpointMissing)
          else if p_api_key a = None \<and> p_azure_ad_token a = None
            then Inl (ConfigurationError CredentialMissing)
          else
            and_then (effective_timeout w env a) (\<lambda>t.
            and_then (effective_max_retries w env a) (\<lambda>n.
            and_then (client_arguments env a endpoint t n) (\<lambda>k.
            and_then (build_client w env k) (\<lambda>cl.
              Inr (assemble a endpoint t n cl))))))"

subsection \<open>Serialization\<close>

text \<open>
  Modelled from the spec: \<^verbatim>\<open>haystack.default_to_dict\<close>, which produces "a named-type wrapper
  containing an initParameters mapping" from the keyword arguments it is given.
\<close>

definition default_to_dict :: "pydict \<Rightarrow> pydict" where
  "default_to_dict kwargs =
     [(''type'', PStr ''haystack.components.generators.azure.AzureOpenAIGenerator''),
      (''init_parameters'', PDict kwargs)]"

fun of_optional_str :: "string option \<Rightarrow> pyval" where
  "of_optional_str None = PNone"
| "of_optional_str (Some s) = PStr s"

text \<open>Lines 167 to 170: the name of a callable when there is one, else \<^verbatim>\<open>None\<close>.\<close>

fun callable_name :: "callable option \<Rightarrow> pyval" where
  "callable_name None = PNone"
| "callable_name (Some f) = PStr (serialize_callable f)"

text \<open>Lines 180 and 181: \<^verbatim>\<open>s.to_dict() if s is not None else None\<close>.\<close>

fun secret_entry :: "secret option \<Rightarrow> error + pyval" where
  "secret_entry None = Inr PNone"
| "secret_entry (Some s) = Secret_to_dict s"

text \<open>
  \<^verbatim>\<open>AzureOpenAIGenerator.to_dict\<close> (lines 167 to 186). It reads the component and returns a
  document; it assigns no attribute, so no component is returned.
\<close>

definition to_dict :: "'cl component \<Rightarrow> error + pydict" where
  "to_dict c =
     (let callback_name = callable_name (streaming_callback c);
          azure_ad_token_provider_name = callable_name (azure_ad_token_provider c)
      in and_then (secret_entry (api_key c)) (\<lambda>key.
         and_then (secret_entry (azure_ad_token c)) (\<lambda>token.
           Inr (default_to_dict
             [(''azure_endpoint'', PStr (azure_endpoint c)),
              (''azure_deployment'', of_optional_str (azure_deployment c)),
              (''organization'', of_optional_str (organization c)),
              (''api_version'', of_optional_str (api_version c)),
              (''streaming_callback'', callback_name),
              (''generation_kwargs'', PDict (generation_kwargs c)),
              (''system_prompt'', of_optional_str (system_prompt c)),
              (''api_key'', key),
              (''azure_ad_token'', token),
              (''timeout'', PFloat (timeout c)),
              (''max_retries'', PInt (max_retries c)),
              (''default_headers'', PDict (default_headers c)),
              (''azure_ad_token_provider'', azure_ad_token_provider_name)]))))"

subsection \<open>Deserialization\<close>

text \<open>
  Modelled from the spec: \<^verbatim>\<open>haystack.utils.deserialize_secrets_inplace\<close>: "secret reference
  fields are reconstructed from their serialized form". A key that is missing, or whose entry
  is \<^verbatim>\<open>None\<close> (what \<^verbatim>\<open>to_dict\<close> writes for an absent reference), is left as it is.
\<close>

fun deserialize_secrets_inplace :: "pydict \<Rightarrow> string list \<Rightarrow> error + pydict" where
  "deserialize_secrets_inplace data [] = Inr data"
| "deserialize_secrets_inplace data (key # keys) =
     (case map_of data key of
        None \<Rightarrow> deserialize_secrets_inplace data keys
      | Some PNone \<Rightarrow> deserialize_secrets_inplace data keys
      | Some v \<Rightarrow>
          and_then (Secret_from_dict v) (\<lambda>s.
            deserialize_secrets_inplace (AList.update key (PSecret s) data) keys))"

text \<open>Truthiness of a Python value, as tested by \<^verbatim>\<open>if v:\<close>.\<close>

fun truthy :: "pyval \<Rightarrow> bool" where
  "truthy PNone = False"
| "truthy (PBool b) = b"
| "truthy (PInt i) = (i \<noteq> 0)"
| "truthy (PFloat r) = (r \<noteq> 0)"
| "truthy (PStr s) = (s \<noteq> [])"
| "truthy (PList vs) = (vs \<noteq> [])"
| "truthy (PDict d) = (d \<noteq> [])"
| "truthy (PEnvVar name strict) = True"
| "truthy (PSecret s) = True"
| "truthy (PCallable f) = True"

text \<open>
  The constructor above is typed by the type hints of \<^verbatim>\<open>__init__\<close>. A document is untyped:
  under any key it may hold a value that the hint of the parameter excludes (a string under
  \<^verbatim>\<open>timeout\<close>, say). Python checks no hint, so the code goes on with such a value, and the
  typed constructor has no counterpart for that run. What follows therefore yields \<open>None\<close>
  for such a document: the run lies outside what is modelled, and no outcome is invented for
  it. \<open>Some\<close> holds the outcome of a modelled run, an error or a result.
\<close>

type_synonym 'a typed_run = "(error + 'a) option"

fun then_run :: "'a typed_run \<Rightarrow> ('a \<Rightarrow> 'b typed_run) \<Rightarrow> 'b typed_run" where
  "then_run None f = None"
| "then_run (Some (Inl e)) f = Some (Inl e)"
| "then_run (Some (Inr v)) f = f v"

text \<open>
  Lines 200 to 207, for one key: \<^verbatim>\<open>v = init_params.get(key)\<close>, and when \<^verbatim>\<open>v\<close> is truthy the
  entry becomes \<^verbatim>\<open>deserialize_callable(v)\<close>. The helper takes a name; a truthy value that is
  not a string is outside its hint.
\<close>

definition deserialize_callable_entry ::
  "(string \<Rightarrow> bool) \<Rightarrow> string \<Rightarrow> pydict \<Rightarrow> pydict typed_run" where
  "deserialize_callable_entry loc key init_params =
     (case map_of init_params key of
        None \<Rightarrow> Some (Inr init_params)
      | Some v \<Rightarrow>
          if truthy v then
            (case v of
               PStr name \<Rightarrow>
                 Some (and_then (deserialize_callable loc name) (\<lambda>f.
                   Inr (AList.update key (PCallable f) init_params)))
             | _ \<Rightarrow> None)
          else Some (Inr init_params))"

text \<open>
  Binding \<^verbatim>\<open>cls(**init_params)\<close> to the signature of \<^verbatim>\<open>__init__\<close>: a key that is not a
  parameter is Python's TypeError for an unexpected keyword argument, whatever the values
  are; a missing key is an omitted argument; a value is passed as it is when the hint of its
  parameter admits it.
\<close>

definition parameter_names :: "string list" where
  "parameter_names =
     [''azure_endpoint'', ''api_version'', ''azure_deployment'', ''api_key'',
      ''azure_ad_token'', ''organization'', ''streaming_callback'', ''system_prompt'',
      ''timeout'', ''max_retries'', ''generation_kwargs'', ''default_headers'',
      ''azure_ad_token_provider'']"

text \<open>The values that each hint admits, read as the typed value; \<open>None\<close> for any other.\<close>

fun as_optional_str :: "pyval \<Rightarrow> string option option" where
  "as_optional_str PNone = Some None"
| "as_optional_str (PStr s) = Some (Some s)"
| "as_optional_str _ = None"

fun as_optional_secret :: "pyval \<Rightarrow> secret option option" where
  "as_optional_secret PNone = Some None"
| "as_optional_secret (PSecret s) = Some (Some s)"
| "as_optional_secret _ = None"

fun as_optional_callable :: "pyval \<Rightarrow> callable option option" where
  "as_optional_callable PNone = Some None"
| "as_optional_callable (PCallable f) = Some (Some f)"
| "as_optional_callable _ = None"

fun as_optional_float :: "pyval \<Rightarrow> real option option" where
  "as_optional_float PNone = Some None"
| "as_optional_float (PFloat r) = Some (Some r)"
| "as_optional_float _ = None"

fun as_optional_int :: "pyval \<Rightarrow> int option option" where
  "as_optional_int PNone = Some None"
| "as_optional_int (PInt i) = Some (Some i)"
| "as_optional_int _ = None"

fun as_optional_dict :: "pyval \<Rightarrow> pydict option option" where
  "as_optional_dict PNone = Some None"
| "as_optional_dict (PDict d) = Some (Some d)"
| "as_optional_dict _ = None"

text \<open>
  One keyword: omitted when the key is missing, passed when the hint admits the value, and
  \<open>None\<close> (no error: Python raises none) when it does not.
\<close>

definition keyword :: "(pyval \<Rightarrow> 'a option) \<Rightarrow> pydict \<Rightarrow> string \<Rightarrow> 'a arg option" where
  "keyword as init_params key =
     (case map_of init_params key of
        None \<Rightarrow> Some Omitted
      | Some v \<Rightarrow> map_option Passed (as v))"

definition typed_arguments :: "pydict \<Rightarrow> call_args option" where
  "typed_arguments init_params =
     Option.bind (keyword as_optional_str init_params ''azure_endpoint'') (\<lambda>a1.
     Option.bind (keyword as_optional_str init_params ''api_version'') (\<lambda>a2.
     Option.bind (keyword as_optional_str init_params ''azure_deployment'') (\<lambda>a3.
     Option.bind (keyword as_optional_secret init_params ''api_key'') (\<lambda>a4.
     Option.bind (keyword as_optional_secret init_params ''azure_ad_token'') (\<lambda>a5.
     Option.bind (keyword as_optional_str init_params ''organization'') (\<lambda>a6.
     Option.bind (keyword as_optional_callable init_params ''streaming_callback'') (\<lambda>a7.
     Option.bind (keyword as_optional_str init_params ''system_prompt'') (\<lambda>a8.
     Option.bind (keyword as_optional_float init_params ''timeout'') (\<lambda>a9.
     Option.bind (keyword as_optional_int init_params ''max_retries'') (\<lambda>a10.
     Option.bind (keyword as_optional_dict init_params ''generation_kwargs'') (\<lambda>a11.
     Option.bind (keyword as_optional_dict init_params ''default_headers'') (\<lambda>a12.
     Option.bind (keyword as_optional_callable init_params ''azure_ad_token_provider'') (\<lambda>a13.
       Some \<lparr> arg_azure_endpoint = a1, arg_api_version = a2, arg_azure_deployment = a3,
              arg_api_key = a4, arg_azure_ad_token = a5, arg_organization = a6,
              arg_streaming_callback = a7, arg_system_prompt = a8, arg_timeout = a9,
              arg_max_retries = a10, arg_generation_kwargs = a11,
              arg_default_headers = a12,
              arg_azure_ad_token_provider = a13 \<rparr>)))))))))))))"

definition bind_keywords :: "pydict \<Rightarrow> call_args typed_run" where
  "bind_keywords init_params =
     (case filter (\<lambda>key. key \<notin> set parameter_names) (map fst init_params) of
        key # _ \<Rightarrow> Some (Inl (TypeError key))
      | [] \<Rightarrow> map_option Inr (typed_arguments init_params))"

text \<open>
  Modelled from the spec: \<^verbatim>\<open>haystack.default_from_dict\<close>, which "delegates to Construct with
  the reconstructed parameters": \<^verbatim>\<open>cls(**data.get("init_parameters", {}))\<close>.
\<close>

definition default_from_dict ::
  "'cl platform \<Rightarrow> environ \<Rightarrow> pydict \<Rightarrow> 'cl component typed_run" where
  "default_from_dict w env init_params =
     then_run (bind_keywords init_params) (\<lambda>args. Some (init w env args))"

text \<open>
  The part of \<^verbatim>\<open>from_dict\<close> that rewrites the document (lines 198 to 207). Line 198 indexes
  \<^verbatim>\<open>data["init_parameters"]\<close>, a KeyError when the key is missing; the hint of the helper it is
  passed to wants a dictionary.
\<close>

definition reconstruct_parameters :: "(string \<Rightarrow> bool) \<Rightarrow> pydict \<Rightarrow> pydict typed_run" where
  "reconstruct_parameters loc data =
     (case map_of data ''init_parameters'' of
        None \<Rightarrow> Some (Inl (KeyError ''init_parameters''))
      | Some (PDict init_params) \<Rightarrow>
          then_run
            (Some (deserialize_secrets_inplace init_params [''api_key'', ''azure_ad_token'']))
            (\<lambda>p1.
          then_run (deserialize_callable_entry loc ''streaming_callback'' p1) (\<lambda>p2.
            deserialize_callable_entry loc ''azure_ad_token_provider'' p2))
      | Some _ \<Rightarrow> None)"

text \<open>\<^verbatim>\<open>AzureOpenAIGenerator.from_dict\<close> (lines 198 to 208).\<close>

definition from_dict :: "'cl platform \<Rightarrow> environ \<Rightarrow> pydict \<Rightarrow> 'cl component typed_run" where
  "from_dict w env data =
     then_run (reconstruct_parameters (locatable w) data) (default_from_dict w env)"

subsection \<open>Notions used in the statements\<close>

text \<open>
  The \<^verbatim>\<open>init_parameters\<close> of a document, entry by entry in the order in which \<^verbatim>\<open>to_dict\<close>
  writes them.
\<close>

definition document ::
  "pyval \<Rightarrow> pyval \<Rightarrow> pyval \<Rightarrow> pyval \<Rightarrow> pyval \<Rightarrow> pyval \<Rightarrow> pyval \<Rightarrow> pyval \<Rightarrow> pyval \<Rightarrow> pyval \<Rightarrow>
   pyval \<Rightarrow> pyval \<Rightarrow> pyval \<Rightarrow> pydict" where
  "document endpoint deployment org version callback kwargs prompt key token t n headers provider =
     [(''azure_endpoint'', endpoint),
      (''azure_deployment'', deployment),
      (''organization'', org),
      (''api_version'', version),
      (''streaming_callback'', callback),
      (''generation_kwargs'', kwargs),
      (''system_prompt'', prompt),
      (''api_key'', key),
      (''azure_ad_token'', token),
      (''timeout'', t),
      (''max_retries'', n),
      (''default_headers'', headers),
      (''azure_ad_token_provider'', provider)]"

text \<open>What \<^verbatim>\<open>to_dict\<close> writes for a component, given the serialized forms of its two secrets.\<close>

definition init_parameters_of :: "'cl component \<Rightarrow> pyval \<Rightarrow> pyval \<Rightarrow> pydict" where
  "init_parameters_of c key token =
     document (PStr (azure_endpoint c)) (of_optional_str (azure_deployment c))
       (of_optional_str (organization c)) (of_optional_str (api_version c))
       (callable_name (streaming_callback c)) (PDict (generation_kwargs c))
       (of_optional_str (system_prompt c)) key token (PFloat (timeout c))
       (PInt (max_retries c)) (PDict (default_headers c))
       (callable_name (azure_ad_token_provider c))"

text \<open>A stored reference that has a serialized form: none at all, or an environment lookup.\<close>

fun serializable :: "secret option \<Rightarrow> bool" where
  "serializable None = True"
| "serializable (Some (EnvVarSecret name strict)) = True"
| "serializable (Some (TokenSecret t)) = False"

text \<open>
  A stored callable that can be found again by its name: none at all, or one whose name is
  not empty and can be located.
\<close>

fun importable :: "(string \<Rightarrow> bool) \<Rightarrow> callable option \<Rightarrow> bool" where
  "importable loc None = True"
| "importable loc (Some f) = (serialize_callable f \<noteq> [] \<and> loc (serialize_callable f))"

text \<open>The objects that \<^verbatim>\<open>from_dict\<close> puts back into the dictionary.\<close>

fun secret_object :: "secret option \<Rightarrow> pyval" where
  "secret_object None = PNone"
| "secret_object (Some s) = PSecret s"

fun callable_object :: "callable option \<Rightarrow> pyval" where
  "callable_object None = PNone"
| "callable_object (Some f) = PCallable f"

text \<open>The call that passes every attribute of a component back as an argument.\<close>

definition passed_args :: "'cl component \<Rightarrow> call_args" where
  "passed_args c =
     \<lparr> arg_azure_endpoint = Passed (Some (azure_endpoint c)),
       arg_api_version = Passed (api_version c),
       arg_azure_deployment = Passed (azure_deployment c),
       arg_api_key = Passed (api_key c),
       arg_azure_ad_token = Passed (azure_ad_token c),
       arg_organization = Passed (organization c),
       arg_streaming_callback = Passed (streaming_callback c),
       arg_system_prompt = Passed (system_prompt c),
       arg_timeout = Passed (Some (timeout c)),
       arg_max_retries = Passed (Some (max_retries c)),
       arg_generation_kwargs = Passed (Some (generation_kwargs c)),
       arg_default_headers = Passed (Some (default_headers c)),
       arg_azure_ad_token_provider = Passed (azure_ad_token_provider c) \<rparr>"

text \<open>
  The part of \<^verbatim>\<open>from_dict\<close> that runs before the constructor is called: the document is
  rewritten and its entries are bound to the parameters.
\<close>

definition reconstructed_arguments :: "(string \<Rightarrow> bool) \<Rightarrow> pydict \<Rightarrow> call_args typed_run" where
  "reconstructed_arguments loc data = then_run (reconstruct_parameters loc data) bind_keywords"

subsection \<open>A platform for worked examples\<close>

text \<open>
  The worked examples below need one concrete platform. Its \<^verbatim>\<open>float\<close> and \<^verbatim>\<open>int\<close> read
  unsigned plain decimal literals (digits, and for \<^verbatim>\<open>float\<close> an optional fraction, read
  exactly) and reject every other string: they agree with Python on the strings the examples
  use (''45'', ''30.0'', ''3'', ''5'', and ''abc'', which is no numeral), not on the signed,
  padded or exponent forms that Python accepts as well. Its SDK constructor accepts every
  argument set and returns the arguments themselves as the client (the examples that build a
  client give it a credential), and one callable name can be located.
\<close>

definition digit :: "char \<Rightarrow> nat option" where
  "digit c = (let n = (of_char c :: nat) in if 48 \<le> n \<and> n \<le> 57 then Some (n - 48) else None)"

fun digits_value :: "nat \<Rightarrow> string \<Rightarrow> nat option" where
  "digits_value acc [] = Some acc"
| "digits_value acc (c # cs) =
     (case digit c of None \<Rightarrow> None | Some d \<Rightarrow> digits_value (10 * acc + d) cs)"

definition plain_int :: "string \<Rightarrow> int option" where
  "plain_int s = (if s = [] then None else map_option int (digits_value 0 s))"

definition plain_float :: "string \<Rightarrow> real option" where
  "plain_float s =
     (let whole = takeWhile (\<lambda>c. c \<noteq> CHR ''.'') s;
          rest = dropWhile (\<lambda>c. c \<noteq> CHR ''.'') s
      in if whole = [] then None
         else case digits_value 0 whole of
           None \<Rightarrow> None
         | Some i \<Rightarrow>
             (case rest of
                [] \<Rightarrow> Some (real i)
              | _ # fraction \<Rightarrow>
                  (case digits_value 0 fraction of
                     None \<Rightarrow> None
                   | Some f \<Rightarrow> Some (real i + real f / 10 ^ length fraction))))"

definition plain_platform :: "client_kwargs platform" where
  "plain_platform =
     \<lparr> py_float = plain_float, py_int = plain_int,
       AzureOpenAI = (\<lambda>env k. Inr k),
       locatable = (\<lambda>name. name = ''builtins.print'') \<rparr>"

section \<open>Properties of the constructor\<close>

subsection \<open>Auxiliary facts\<close>

lemma and_then_Inr: "and_then m f = Inr y \<longleftrightarrow> (\<exists>x. m = Inr x \<and> f x = Inr y)"
  by (cases m) auto

lemma and_then_Inl:
  "and_then m f = Inl e \<longleftrightarrow> m = Inl e \<or> (\<exists>x. m = Inr x \<and> f x = Inl e)"
  by (cases m) auto

lemma truthy_str_iff: "truthy_str x \<longleftrightarrow> (\<exists>e. x = Some e \<and> e \<noteq> [])"
  by (cases x) auto

lemma init_Inr:
  "init w env a = Inr c \<longleftrightarrow>
     (\<exists>e t n k cl.
        resolved_endpoint env a = Some e \<and> e \<noteq> [] \<and>
        \<not> (p_api_key a = None \<and> p_azure_ad_token a = None) \<and>
        effective_timeout w env a = Inr t \<and>
        effective_max_retries w env a = Inr n \<and>
        client_arguments env a e t n = Inr k \<and>
        build_client w env k = Inr cl \<and>
        c = assemble a e t n cl)"
  unfolding init_def
  by (auto simp: and_then_Inr split: option.splits)

lemma init_checks_pass:
  assumes "resolved_endpoint env a = Some e" "e \<noteq> []"
    and "\<not> (p_api_key a = None \<and> p_azure_ad_token a = None)"
  shows "init w env a =
     and_then (effective_timeout w env a) (\<lambda>t.
     and_then (effective_max_retries w env a) (\<lambda>n.
     and_then (client_arguments env a e t n) (\<lambda>k.
     and_then (build_client w env k) (\<lambda>cl. Inr (assemble a e t n cl)))))"
  using assms unfolding init_def by auto

lemma init_no_endpoint:
  "\<not> truthy_str (resolved_endpoint env a) \<Longrightarrow>
     init w env a = Inl (ConfigurationError EndpointMissing)"
  unfolding init_def by (auto split: option.splits)

lemma build_client_not_config: "build_client w env k \<noteq> Inl (ConfigurationError i)"
  unfolding build_client_def by (auto split: sum.splits)

lemma resolve_value_not_config: "resolve_value env s \<noteq> Inl (ConfigurationError i)"
  by (cases s) (auto split: option.splits)

lemma resolve_opt_not_config: "resolve_opt env so \<noteq> Inl (ConfigurationError i)"
  by (cases so) (auto simp: resolve_value_not_config)

lemma client_arguments_not_config:
  "client_arguments env a e t n \<noteq> Inl (ConfigurationError i)"
  unfolding client_arguments_def
  by (auto simp: and_then_Inl resolve_opt_not_config)

lemma effective_timeout_not_config: "effective_timeout w env a \<noteq> Inl (ConfigurationError i)"
  unfolding effective_timeout_def by (auto simp: Let_def split: option.splits)

lemma effective_max_retries_not_config:
  "effective_max_retries w env a \<noteq> Inl (ConfigurationError i)"
  unfolding effective_max_retries_def by (auto simp: Let_def split: option.splits)

lemma init_passed_no_config:
  assumes "resolved_endpoint env a = Some e" "e \<noteq> []"
    and "\<not> (p_api_key a = None \<and> p_azure_ad_token a = None)"
  shows "init w env a \<noteq> Inl (ConfigurationError i)"
  unfolding init_checks_pass [OF assms]
  by (auto simp: and_then_Inl build_client_not_config client_arguments_not_config
      effective_timeout_not_config effective_max_retries_not_config)


lemma plain_float_30: "plain_float ''30.0'' = Some 30"
  by (simp add: plain_float_def digit_def)

lemma plain_float_abc: "plain_float ''abc'' = None"
  by (simp add: plain_float_def digit_def)


lemma plain_int_5: "plain_int ''5'' = Some 5"
  by (simp add: plain_int_def digit_def)

lemmas parameters_def =
  p_azure_endpoint_def p_api_version_def p_azure_deployment_def p_api_key_def
  p_azure_ad_token_def p_organization_def p_streaming_callback_def p_system_prompt_def
  p_timeout_def p_max_retries_def p_generation_kwargs_def p_default_headers_def
  p_azure_ad_token_provider_def

lemmas construction_def =
  init_def assemble_def resolved_endpoint_def or_str_def effective_timeout_def
  effective_max_retries_def environ_get_def client_arguments_def client_kwargs_of_def
  build_client_def
  from_env_var_def plain_platform_def no_args_def

subsection \<open>Endpoint resolution\<close>

text \<open>Which calls fail at the endpoint check, and which at the credential check.\<close>

lemma init_credential_missing_iff:
  "init w env a = Inl (ConfigurationError CredentialMissing)
     \<longleftrightarrow> truthy_str (resolved_endpoint env a) \<and> p_api_key a = None \<and> p_azure_ad_token a = None"
proof (cases "truthy_str (resolved_endpoint env a)")
  case False
  then show ?thesis by (simp add: init_no_endpoint)
next
  case True
  then obtain e where e: "resolved_endpoint env a = Some e" "e \<noteq> []"
    by (auto simp: truthy_str_iff)
  show ?thesis
  proof (cases "p_api_key a = None \<and> p_azure_ad_token a = None")
    case True
    then have "init w env a = Inl (ConfigurationError CredentialMissing)"
      using e unfolding init_def by simp
    with True \<open>truthy_str (resolved_endpoint env a)\<close> show ?thesis by simp
  next
    case False
    from init_passed_no_config [OF e False, of w CredentialMissing] False
    show ?thesis by auto
  qed
qed

lemma init_endpoint_missing_iff:
  "init w env a = Inl (ConfigurationError EndpointMissing)
     \<longleftrightarrow> \<not> truthy_str (resolved_endpoint env a)"
proof (cases "truthy_str (resolved_endpoint env a)")
  case False
  then show ?thesis by (simp add: init_no_endpoint)
next
  case True
  then obtain e where e: "resolved_endpoint env a = Some e" "e \<noteq> []"
    by (auto simp: truthy_str_iff)
  show ?thesis
  proof (cases "p_api_key a = None \<and> p_azure_ad_token a = None")
    case True
    then have "init w env a = Inl (ConfigurationError CredentialMissing)"
      using e unfolding init_def by simp
    with \<open>truthy_str (resolved_endpoint env a)\<close> show ?thesis by simp
  next
    case False
    from init_passed_no_config [OF e False, of w EndpointMissing]
      \<open>truthy_str (resolved_endpoint env a)\<close>
    show ?thesis by simp
  qed
qed

text \<open>
  C3. When the \<^verbatim>\<open>azure_endpoint\<close> argument is absent (omitted or \<^verbatim>\<open>None\<close>) or the empty string,
  the endpoint is read from the environment variable \<^verbatim>\<open>AZURE_OPENAI_ENDPOINT\<close>. If the
  variable is unset or empty as well, construction fails with the ConfigurationError of the
  endpoint check. If the variable holds a non-empty value, the endpoint check passes; every
  component that construction returns stores that value as its endpoint; and construction
  does return such a component, with the client that the SDK built for that endpoint, as soon
  as a credential reference is present, the two numeric parameters are available, the
  secrets resolve and the SDK constructor accepts its arguments.
\<close>

theorem endpoint_resolution:
  assumes "arg_azure_endpoint a = Omitted \<or> arg_azure_endpoint a = Passed None \<or>
           arg_azure_endpoint a = Passed (Some [])"
  shows "((env ''AZURE_OPENAI_ENDPOINT'' = None \<or> env ''AZURE_OPENAI_ENDPOINT'' = Some [])
            \<longrightarrow> init w env a = Inl (ConfigurationError EndpointMissing)) \<and>
         (\<forall>v. env ''AZURE_OPENAI_ENDPOINT'' = Some v \<and> v \<noteq> [] \<longrightarrow>
            init w env a \<noteq> Inl (ConfigurationError EndpointMissing) \<and>
            (\<forall>c. init w env a = Inr c \<longrightarrow> azure_endpoint c = v) \<and>
            (\<forall>t n key token cl.
               (p_api_key a \<noteq> None \<or> p_azure_ad_token a \<noteq> None) \<and>
               effective_timeout w env a = Inr t \<and>
               effective_max_retries w env a = Inr n \<and>
               resolve_opt env (p_api_key a) = Inr key \<and>
               resolve_opt env (p_azure_ad_token a) = Inr token \<and>
               AzureOpenAI w env (client_kwargs_of a v t n key token) = Inr cl
               \<longrightarrow> (\<exists>c. init w env a = Inr c \<and> azure_endpoint c = v \<and> client c = cl)))"
    (is "?fails \<and> ?passes")
proof -
  have "p_azure_endpoint a = None \<or> p_azure_endpoint a = Some []"
    using assms unfolding p_azure_endpoint_def by auto
  then have r: "resolved_endpoint env a = env ''AZURE_OPENAI_ENDPOINT''"
    unfolding resolved_endpoint_def or_str_def by auto
  have 1: ?fails
    by (auto simp: init_endpoint_missing_iff r)
  have 2: ?passes
  proof (intro allI impI, elim conjE)
    fix v assume v: "env ''AZURE_OPENAI_ENDPOINT'' = Some v" "v \<noteq> []"
    then have e: "resolved_endpoint env a = Some v" using r by simp
    have a: "init w env a \<noteq> Inl (ConfigurationError EndpointMissing)"
      using e v(2) by (simp add: init_endpoint_missing_iff)
    have b: "\<forall>c. init w env a = Inr c \<longrightarrow> azure_endpoint c = v"
      using e unfolding init_Inr by (auto simp: assemble_def)
    have c: "\<forall>t n key token cl.
               (p_api_key a \<noteq> None \<or> p_azure_ad_token a \<noteq> None) \<and>
               effective_timeout w env a = Inr t \<and>
               effective_max_retries w env a = Inr n \<and>
               resolve_opt env (p_api_key a) = Inr key \<and>
               resolve_opt env (p_azure_ad_token a) = Inr token \<and>
               AzureOpenAI w env (client_kwargs_of a v t n key token) = Inr cl
               \<longrightarrow> (\<exists>c. init w env a = Inr c \<and> azure_endpoint c = v \<and> client c = cl)"
    proof (intro allI impI, elim conjE)
      fix t n key token cl
      assume cred: "p_api_key a \<noteq> None \<or> p_azure_ad_token a \<noteq> None"
        and rest: "effective_timeout w env a = Inr t" "effective_max_retries w env a = Inr n"
          "resolve_opt env (p_api_key a) = Inr key"
          "resolve_opt env (p_azure_ad_token a) = Inr token"
          "AzureOpenAI w env (client_kwargs_of a v t n key token) = Inr cl"
      from cred have cred': "\<not> (p_api_key a = None \<and> p_azure_ad_token a = None)" by blast
      have "init w env a = Inr (assemble a v t n cl)"
        unfolding init_checks_pass [OF e v(2) cred']
        using rest by (simp add: client_arguments_def build_client_def)
      then show "\<exists>c. init w env a = Inr c \<and> azure_endpoint c = v \<and> client c = cl"
        by (simp add: assemble_def)
    qed
    show "init w env a \<noteq> Inl (ConfigurationError EndpointMissing) \<and>
            (\<forall>c. init w env a = Inr c \<longrightarrow> azure_endpoint c = v) \<and>
            (\<forall>t n key token cl.
               (p_api_key a \<noteq> None \<or> p_azure_ad_token a \<noteq> None) \<and>
               effective_timeout w env a = Inr t \<and>
               effective_max_retries w env a = Inr n \<and>
               resolve_opt env (p_api_key a) = Inr key \<and>
               resolve_opt env (p_azure_ad_token a) = Inr token \<and>
               AzureOpenAI w env (client_kwargs_of a v t n key token) = Inr cl
               \<longrightarrow> (\<exists>c. init w env a = Inr c \<and> azure_endpoint c = v \<and> client c = cl))"
      by (rule conjI [OF a conjI [OF b c]])
  qed
  show ?thesis by (rule conjI [OF 1 2])
qed

text \<open>
  The call with no argument. Where the variable is set to the empty string, the endpoint
  check fails; where it is set to an address (and the key's variable is set), a component
  is returned that stores the address, and its client was built for the address.
\<close>

theorem endpoint_resolution_witness:
  "init plain_platform [''AZURE_OPENAI_ENDPOINT'' \<mapsto> ''''] no_args
     = Inl (ConfigurationError EndpointMissing) \<and>
   (\<exists>c. init plain_platform
           [''AZURE_OPENAI_ENDPOINT'' \<mapsto> ''https://e'', ''AZURE_OPENAI_API_KEY'' \<mapsto> ''k'']
           no_args = Inr c \<and>
        azure_endpoint c = ''https://e'' \<and> k_azure_endpoint (client c) = ''https://e'')"
proof -
  have o: "arg_azure_endpoint no_args = Omitted \<or> arg_azure_endpoint no_args = Passed None \<or>
           arg_azure_endpoint no_args = Passed (Some [])"
    by (simp add: no_args_def)
  let ?env = "[''AZURE_OPENAI_ENDPOINT'' \<mapsto> ''https://e'', ''AZURE_OPENAI_API_KEY'' \<mapsto> ''k'']"
  let ?k = "client_kwargs_of no_args ''https://e'' 30 5 (Some ''k'') None"
  have 1: "init plain_platform [''AZURE_OPENAI_ENDPOINT'' \<mapsto> ''''] no_args
     = Inl (ConfigurationError EndpointMissing)"
    using endpoint_resolution [OF o, of "[''AZURE_OPENAI_ENDPOINT'' \<mapsto> '''']" plain_platform]
    by simp
  have h: "p_api_key no_args \<noteq> None \<or> p_azure_ad_token no_args \<noteq> None"
    "effective_timeout plain_platform ?env no_args = Inr 30"
    "effective_max_retries plain_platform ?env no_args = Inr 5"
    "resolve_opt ?env (p_api_key no_args) = Inr (Some ''k'')"
    "resolve_opt ?env (p_azure_ad_token no_args) = Inr None"
    "AzureOpenAI plain_platform ?env ?k = Inr ?k"
    by (simp_all add: parameters_def no_args_def from_env_var_def effective_timeout_def
        effective_max_retries_def environ_get_def plain_platform_def plain_float_30
        plain_int_5)
  have v: "?env ''AZURE_OPENAI_ENDPOINT'' = Some ''https://e'' \<and> ''https://e'' \<noteq> []"
    by simp
  from endpoint_resolution [OF o, of ?env plain_platform, THEN conjunct2, rule_format, OF v,
      THEN conjunct2, THEN conjunct2, rule_format, of 30 5 "Some ''k''" None ?k] h
  obtain c where "init plain_platform ?env no_args = Inr c" "azure_endpoint c = ''https://e''"
    "client c = ?k"
    by blast
  then have "\<exists>c. init plain_platform ?env no_args = Inr c \<and>
        azure_endpoint c = ''https://e'' \<and> k_azure_endpoint (client c) = ''https://e''"
    by (auto simp: client_kwargs_of_def)
  with 1 show ?thesis by (rule conjI)
qed

subsection \<open>The credential check\<close>

text \<open>
  C1, as the code has it. With an endpoint available, construction fails with a
  ConfigurationError exactly when \<^verbatim>\<open>api_key\<close> and \<^verbatim>\<open>azure_ad_token\<close> are both passed as
  \<^verbatim>\<open>None\<close>; the error is then the one of the credential check and it is raised whatever the
  platform is, that is, before any secret is resolved or any client is built. An argument
  that is omitted takes its default, an environment-variable reference, and passes the check.
\<close>

theorem credential_check:
  assumes "truthy_str (resolved_endpoint env a)"
  shows "((\<exists>i. init w env a = Inl (ConfigurationError i))
           \<longleftrightarrow> arg_api_key a = Passed None \<and> arg_azure_ad_token a = Passed None) \<and>
         (arg_api_key a = Passed None \<and> arg_azure_ad_token a = Passed None
           \<longrightarrow> init w env a = Inl (ConfigurationError CredentialMissing))"
proof -
  obtain e where e: "resolved_endpoint env a = Some e" "e \<noteq> []"
    using assms by (auto simp: truthy_str_iff)
  have both: "(p_api_key a = None \<and> p_azure_ad_token a = None)
      \<longleftrightarrow> (arg_api_key a = Passed None \<and> arg_azure_ad_token a = Passed None)"
    unfolding p_api_key_def p_azure_ad_token_def
    by (cases "arg_api_key a"; cases "arg_azure_ad_token a") auto
  show ?thesis
  proof (cases "p_api_key a = None \<and> p_azure_ad_token a = None")
    case True
    then have "init w env a = Inl (ConfigurationError CredentialMissing)"
      using e unfolding init_def by simp
    then show ?thesis using True both by auto
  next
    case False
    then have "init w env a \<noteq> Inl (ConfigurationError i)" for i
      using init_passed_no_config [OF e] by blast
    then show ?thesis using False both by auto
  qed
qed

text \<open>Both credentials passed as \<^verbatim>\<open>None\<close>, with an endpoint: the credential check fails.\<close>

theorem credential_check_witness:
  "truthy_str (resolved_endpoint Map.empty
     (no_args\<lparr>arg_azure_endpoint := Passed (Some ''https://e''),
              arg_api_key := Passed None, arg_azure_ad_token := Passed None\<rparr>)) \<and>
   init plain_platform Map.empty
     (no_args\<lparr>arg_azure_endpoint := Passed (Some ''https://e''),
              arg_api_key := Passed None, arg_azure_ad_token := Passed None\<rparr>)
     = Inl (ConfigurationError CredentialMissing)"
  using credential_check
    [of Map.empty
        "no_args\<lparr>arg_azure_endpoint := Passed (Some ''https://e''),
                 arg_api_key := Passed None, arg_azure_ad_token := Passed None\<rparr>"
        plain_platform]
  by (simp add: resolved_endpoint_def or_str_def p_azure_endpoint_def no_args_def)

text \<open>
  C1 as stated fails: with an endpoint and neither credential among the arguments, in an
  environment that sets \<^verbatim>\<open>AZURE_OPENAI_API_KEY\<close>, construction returns a component. Its
  \<^verbatim>\<open>api_key\<close> is the default reference of line 62, and the client was given the variable's
  value.
\<close>

theorem credential_check_counterexample:
  "(case init plain_platform [''AZURE_OPENAI_API_KEY'' \<mapsto> ''k'']
           (no_args\<lparr>arg_azure_endpoint := Passed (Some ''https://e'')\<rparr>) of
      Inl e \<Rightarrow> False
    | Inr c \<Rightarrow> api_key c = Some (EnvVarSecret ''AZURE_OPENAI_API_KEY'' False) \<and>
              k_api_key (client c) = Some ''k'')"
  by (simp add: construction_def parameters_def plain_float_30 plain_int_5)

subsection \<open>Numeric defaults\<close>



text \<open>With both arguments omitted and neither variable set, the literals 30.0 and 5 apply.\<close>

lemma numeric_defaults_fallback:
  "(case init plain_platform [''AZURE_OPENAI_API_KEY'' \<mapsto> ''k'']
           (no_args\<lparr>arg_azure_endpoint := Passed (Some ''https://e'')\<rparr>) of
      Inl e \<Rightarrow> False
    | Inr c \<Rightarrow> timeout c = 30 \<and> max_retries c = 5)"
  by (simp add: construction_def parameters_def plain_float_30 plain_int_5)

subsection \<open>Parse failures of the numeric variables\<close>

text \<open>
  C7, as the code has it. When the endpoint check and the credential check pass, a timeout
  that is unset together with an \<^verbatim>\<open>OPENAI_TIMEOUT\<close> that \<^verbatim>\<open>float\<close> rejects makes construction
  fail with the parse error of \<^verbatim>\<open>float\<close>; and a \<^verbatim>\<open>max_retries\<close> that is unset together with an
  \<^verbatim>\<open>OPENAI_MAX_RETRIES\<close> that \<^verbatim>\<open>int\<close> rejects makes it fail with the parse error of \<^verbatim>\<open>int\<close>,
  unless the timeout of line 142 has already failed to parse, which is then the error. In
  no case is the error a ConfigurationError.
\<close>

theorem parse_failure_propagates:
  assumes "truthy_str (resolved_endpoint env a)"
    and "p_api_key a \<noteq> None \<or> p_azure_ad_token a \<noteq> None"
  shows "(p_timeout a = None \<and> env ''OPENAI_TIMEOUT'' = Some s \<and> py_float w s = None
            \<longrightarrow> init w env a = Inl (FloatParseError s)) \<and>
         (p_max_retries a = None \<and> env ''OPENAI_MAX_RETRIES'' = Some s' \<and> py_int w s' = None
            \<longrightarrow> (case effective_timeout w env a of
                   Inr t \<Rightarrow> init w env a = Inl (IntParseError s')
                 | Inl e \<Rightarrow> init w env a = Inl e \<and>
                     e = FloatParseError (environ_get env ''OPENAI_TIMEOUT'' ''30.0'')))"
proof -
  obtain e where e: "resolved_endpoint env a = Some e" "e \<noteq> []"
    using assms(1) by (auto simp: truthy_str_iff)
  have cred: "\<not> (p_api_key a = None \<and> p_azure_ad_token a = None)"
    using assms(2) by blast
  note i = init_checks_pass [OF e cred, of w]
  have "init w env a = Inl (FloatParseError s)"
    if "p_timeout a = None" "env ''OPENAI_TIMEOUT'' = Some s" "py_float w s = None"
    using that unfolding i effective_timeout_def environ_get_def by simp
  moreover have "case effective_timeout w env a of
                   Inr t \<Rightarrow> init w env a = Inl (IntParseError s')
                 | Inl e \<Rightarrow> init w env a = Inl e \<and>
                     e = FloatParseError (environ_get env ''OPENAI_TIMEOUT'' ''30.0'')"
    if "p_max_retries a = None" "env ''OPENAI_MAX_RETRIES'' = Some s'" "py_int w s' = None"
    using that unfolding i effective_timeout_def effective_max_retries_def environ_get_def
    by (auto simp: Let_def split: option.splits sum.splits)
  ultimately show ?thesis by blast
qed

text \<open>
  An endpoint, the default credentials, no timeout argument and \<^verbatim>\<open>OPENAI_TIMEOUT\<close> set to
  "abc": the error is the parse error of \<^verbatim>\<open>float\<close>.
\<close>

theorem parse_failure_propagates_witness:
  "truthy_str (resolved_endpoint [''OPENAI_TIMEOUT'' \<mapsto> ''abc'']
     (no_args\<lparr>arg_azure_endpoint := Passed (Some ''https://e'')\<rparr>)) \<and>
   p_api_key (no_args\<lparr>arg_azure_endpoint := Passed (Some ''https://e'')\<rparr>) \<noteq> None \<and>
   init plain_platform [''OPENAI_TIMEOUT'' \<mapsto> ''abc'']
     (no_args\<lparr>arg_azure_endpoint := Passed (Some ''https://e'')\<rparr>)
     = Inl (FloatParseError ''abc'')"
proof -
  let ?env = "[''OPENAI_TIMEOUT'' \<mapsto> ''abc'']"
  let ?a = "no_args\<lparr>arg_azure_endpoint := Passed (Some ''https://e'')\<rparr>"
  have e: "truthy_str (resolved_endpoint ?env ?a)"
    by (simp add: resolved_endpoint_def or_str_def p_azure_endpoint_def no_args_def)
  have k: "p_api_key ?a \<noteq> None"
    by (simp add: p_api_key_def no_args_def)
  then have cred: "p_api_key ?a \<noteq> None \<or> p_azure_ad_token ?a \<noteq> None" ..
  from parse_failure_propagates [OF e cred, of "''abc''" plain_platform]
  have "init plain_platform ?env ?a = Inl (FloatParseError ''abc'')"
    by (simp add: p_timeout_def no_args_def plain_platform_def plain_float_abc)
  with e k show ?thesis by blast
qed

text \<open>
  C7 as stated fails: with no endpoint, a timeout that is unset and \<^verbatim>\<open>OPENAI_TIMEOUT\<close> set to
  "abc", construction fails at the endpoint check of line 124, with a ConfigurationError; the
  variable is never parsed.
\<close>

theorem parse_failure_propagates_counterexample:
  "init plain_platform [''OPENAI_TIMEOUT'' \<mapsto> ''abc''] no_args
     = Inl (ConfigurationError EndpointMissing)"
  by (simp add: construction_def parameters_def)

subsection \<open>Construction with an Azure AD token only\<close>

lemma build_client_Inr: "build_client w env k = Inr cl \<longleftrightarrow> AzureOpenAI w env k = Inr cl"
  unfolding build_client_def by (auto split: sum.splits)

lemma client_arguments_Inr:
  "client_arguments env a e t n = Inr k \<longleftrightarrow>
     (\<exists>key token. resolve_opt env (p_api_key a) = Inr key \<and>
        resolve_opt env (p_azure_ad_token a) = Inr token \<and>
        k = client_kwargs_of a e t n key token)"
  unfolding client_arguments_def by (auto simp: and_then_Inr)

text \<open>
  C6, as the code has it. With an endpoint, \<^verbatim>\<open>api_key\<close> passed as \<^verbatim>\<open>None\<close> and a secret
  reference \<open>s\<close> as \<^verbatim>\<open>azure_ad_token\<close>: construction never fails with a ConfigurationError;
  whenever it returns a component, the SDK constructor was called with \<^verbatim>\<open>api_key=None\<close> and
  with the value that \<open>s\<close> resolves to; and it does return a component as soon as the two
  numeric parameters are available, \<open>s\<close> resolves and the SDK constructor accepts its
  arguments.
\<close>

theorem ad_token_only:
  assumes "resolved_endpoint env a = Some e" "e \<noteq> []"
    and "p_api_key a = None" "p_azure_ad_token a = Some s"
  shows "(\<forall>i. init w env a \<noteq> Inl (ConfigurationError i)) \<and>
         (\<forall>c. init w env a = Inr c \<longrightarrow>
            (\<exists>token. resolve_value env s = Inr token \<and>
               AzureOpenAI w env
                 (client_kwargs_of a e (timeout c) (max_retries c) None token)
                 = Inr (client c))) \<and>
         (\<forall>t n token cl.
            effective_timeout w env a = Inr t \<and> effective_max_retries w env a = Inr n \<and>
            resolve_value env s = Inr token \<and>
            AzureOpenAI w env (client_kwargs_of a e t n None token) = Inr cl
            \<longrightarrow> init w env a = Inr (assemble a e t n cl))"
proof -
  have cred: "\<not> (p_api_key a = None \<and> p_azure_ad_token a = None)"
    using assms(4) by simp
  have 1: "init w env a \<noteq> Inl (ConfigurationError i)" for i
    using init_passed_no_config [OF assms(1,2) cred] .
  have 2: "\<exists>token. resolve_value env s = Inr token \<and>
               AzureOpenAI w env
                 (client_kwargs_of a e (timeout c) (max_retries c) None token)
                 = Inr (client c)"
    if "init w env a = Inr c" for c
    using that assms unfolding init_Inr client_arguments_Inr build_client_Inr
    by (auto simp: assemble_def)
  have 3: "init w env a = Inr (assemble a e t n cl)"
    if "effective_timeout w env a = Inr t" "effective_max_retries w env a = Inr n"
       "resolve_value env s = Inr token"
       "AzureOpenAI w env (client_kwargs_of a e t n None token) = Inr cl"
    for t n token cl
    using that assms(3,4) unfolding init_checks_pass [OF assms(1,2) cred]
    by (simp add: client_arguments_def build_client_def)
  show ?thesis using 1 2 3 by blast
qed

text \<open>
  An endpoint, \<^verbatim>\<open>api_key=None\<close> and a literal token: a component is returned, and its client
  was given no key and the token.
\<close>

theorem ad_token_only_witness:
  "(case init plain_platform Map.empty
           (no_args\<lparr>arg_azure_endpoint := Passed (Some ''https://e''),
                    arg_api_key := Passed None,
                    arg_azure_ad_token := Passed (Some (from_token ''t''))\<rparr>) of
      Inl e \<Rightarrow> False
    | Inr c \<Rightarrow> k_api_key (client c) = None \<and> k_azure_ad_token (client c) = Some ''t'')"
proof -
  let ?a = "no_args\<lparr>arg_azure_endpoint := Passed (Some ''https://e''),
                    arg_api_key := Passed None,
                    arg_azure_ad_token := Passed (Some (from_token ''t''))\<rparr>"
  have e: "resolved_endpoint Map.empty ?a = Some ''https://e''" "''https://e'' \<noteq> []"
    by (simp_all add: resolved_endpoint_def or_str_def p_azure_endpoint_def no_args_def)
  have k: "p_api_key ?a = None" and t: "p_azure_ad_token ?a = Some (TokenSecret ''t'')"
    by (simp_all add: p_api_key_def p_azure_ad_token_def no_args_def from_token_def)
  obtain c where c: "init plain_platform Map.empty ?a = Inr c"
    by (simp add: construction_def parameters_def plain_float_30 plain_int_5 from_token_def)
  from ad_token_only [OF e k t, of plain_platform] c
  obtain token where
    token: "resolve_value Map.empty (TokenSecret ''t'') = Inr token" and
    cl: "AzureOpenAI plain_platform Map.empty
           (client_kwargs_of ?a ''https://e'' (timeout c) (max_retries c) None token)
         = Inr (client c)"
    by blast
  from cl have "client c
      = client_kwargs_of ?a ''https://e'' (timeout c) (max_retries c) None token"
    by (simp add: plain_platform_def)
  moreover from token have "token = Some ''t''" by simp
  ultimately show ?thesis unfolding c by (simp add: client_kwargs_of_def)
qed

text \<open>
  C6 as stated fails: the same call in an environment where \<^verbatim>\<open>OPENAI_TIMEOUT\<close> is "abc" does
  not succeed. Line 142 raises the parse error of \<^verbatim>\<open>float\<close>, and no client is built.
\<close>

theorem ad_token_only_counterexample:
  "init plain_platform [''OPENAI_TIMEOUT'' \<mapsto> ''abc'']
     (no_args\<lparr>arg_azure_endpoint := Passed (Some ''https://e''),
              arg_api_key := Passed None,
              arg_azure_ad_token := Passed (Some (from_token ''t''))\<rparr>)
   = Inl (FloatParseError ''abc'')"
  by (simp add: construction_def parameters_def plain_float_abc from_token_def)

text \<open>
  A strict environment reference whose variable is unset does not resolve either: line 153
  raises, and again no client is built.
\<close>

lemma ad_token_unresolved:
  "init plain_platform Map.empty
     (no_args\<lparr>arg_azure_endpoint := Passed (Some ''https://e''),
              arg_api_key := Passed None,
              arg_azure_ad_token := Passed (Some (from_env_var ''MY_AD_TOKEN'' True))\<rparr>)
   = Inl (ResolutionError ''MY_AD_TOKEN'')"
  by (simp add: construction_def parameters_def plain_float_30 plain_int_5)

subsection \<open>Secrets are stored as references\<close>

lemma to_dict_client: "to_dict (c\<lparr>client := cl\<rparr>) = to_dict c"
  unfolding to_dict_def by simp

text \<open>
  C8. A component that construction returns stores as \<^verbatim>\<open>api_key\<close> and \<^verbatim>\<open>azure_ad_token\<close> the
  references it was given (the default references when the arguments are omitted). Their
  resolved values are arguments of the SDK constructor and nothing else: a second
  construction from the same arguments, on any platform and in any environment that leads to
  the same endpoint, timeout and retry count, differs from the first in the client at most.
  \<^verbatim>\<open>to_dict\<close> does not read the client, so it sees the references only.
\<close>

theorem references_stored_unresolved:
  assumes "init w env a = Inr c"
  shows "(api_key c = p_api_key a \<and> azure_ad_token c = p_azure_ad_token a) \<and>
         (\<exists>key token.
            resolve_opt env (api_key c) = Inr key \<and>
            resolve_opt env (azure_ad_token c) = Inr token \<and>
            AzureOpenAI w env
              (client_kwargs_of a (azure_endpoint c) (timeout c) (max_retries c) key token)
              = Inr (client c)) \<and>
         (\<forall>w' env' c'.
            init w' env' a = Inr c' \<and> azure_endpoint c' = azure_endpoint c \<and>
            timeout c' = timeout c \<and> max_retries c' = max_retries c
            \<longrightarrow> c'\<lparr>client := client c\<rparr> = c) \<and>
         (\<forall>cl. to_dict (c\<lparr>client := cl\<rparr>) = to_dict c)"
    (is "?stored \<and> ?resolved \<and> ?independent \<and> ?serialized")
proof -
  from assms obtain e t n k cl where
    k: "client_arguments env a e t n = Inr k" and
    cl: "build_client w env k = Inr cl" and
    c: "c = assemble a e t n cl"
    unfolding init_Inr by blast
  have 1: ?stored
    using c by (simp add: assemble_def)
  have 2: ?resolved
    using k cl unfolding client_arguments_Inr build_client_Inr c
    by (auto simp: assemble_def)
  have 3: ?independent
  proof (intro allI impI, elim conjE)
    fix w' :: "'a platform" and env' c'
    assume i: "init w' env' a = Inr c'" and
      same: "azure_endpoint c' = azure_endpoint c" "timeout c' = timeout c"
        "max_retries c' = max_retries c"
    from i obtain e' t' n' cl' where c': "c' = assemble a e' t' n' cl'"
      unfolding init_Inr by blast
    show "c'\<lparr>client := client c\<rparr> = c"
      using same unfolding c c' by (simp add: assemble_def)
  qed
  have 4: ?serialized
    by (simp add: to_dict_client)
  show ?thesis by (rule conjI [OF 1 conjI [OF 2 conjI [OF 3 4]]])
qed

text \<open>
  A strict reference to the variable \<^verbatim>\<open>MY_KEY\<close>, set to "hunter2": the component stores the
  reference, the client holds the value.
\<close>

theorem references_stored_unresolved_witness:
  "(case init plain_platform [''MY_KEY'' \<mapsto> ''hunter2'']
           (no_args\<lparr>arg_azure_endpoint := Passed (Some ''https://e''),
                    arg_api_key := Passed (Some (from_env_var ''MY_KEY'' True))\<rparr>) of
      Inl e \<Rightarrow> False
    | Inr c \<Rightarrow> api_key c = Some (EnvVarSecret ''MY_KEY'' True) \<and>
              azure_ad_token c = Some (EnvVarSecret ''AZURE_OPENAI_AD_TOKEN'' False) \<and>
              k_api_key (client c) = Some ''hunter2'')"
proof -
  let ?env = "[''MY_KEY'' \<mapsto> ''hunter2'']"
  let ?a = "no_args\<lparr>arg_azure_endpoint := Passed (Some ''https://e''),
                    arg_api_key := Passed (Some (from_env_var ''MY_KEY'' True))\<rparr>"
  obtain c where c: "init plain_platform ?env ?a = Inr c"
    by (simp add: construction_def parameters_def plain_float_30 plain_int_5)
  from references_stored_unresolved [OF c]
  have stored: "api_key c = p_api_key ?a \<and> azure_ad_token c = p_azure_ad_token ?a"
    and "\<exists>key token.
            resolve_opt ?env (api_key c) = Inr key \<and>
            resolve_opt ?env (azure_ad_token c) = Inr token \<and>
            AzureOpenAI plain_platform ?env
              (client_kwargs_of ?a (azure_endpoint c) (timeout c) (max_retries c) key token)
              = Inr (client c)"
    by blast+
  then obtain key token where
    key: "resolve_opt ?env (api_key c) = Inr key" and
    sdk: "AzureOpenAI plain_platform ?env
            (client_kwargs_of ?a (azure_endpoint c) (timeout c) (max_retries c) key token)
          = Inr (client c)"
    by blast
  from sdk have cl: "client c
      = client_kwargs_of ?a (azure_endpoint c) (timeout c) (max_retries c) key token"
    by (simp add: plain_platform_def)
  have refs: "p_api_key ?a = Some (EnvVarSecret ''MY_KEY'' True)"
    "p_azure_ad_token ?a = Some (EnvVarSecret ''AZURE_OPENAI_AD_TOKEN'' False)"
    by (simp_all add: p_api_key_def p_azure_ad_token_def no_args_def from_env_var_def)
  from key stored refs have "key = Some ''hunter2''" by simp
  with stored refs cl show ?thesis unfolding c by (simp add: client_kwargs_of_def)
qed

section \<open>Properties of serialization\<close>

subsection \<open>Auxiliary facts\<close>

lemma to_dict_Inr:
  "to_dict c = Inr d \<longleftrightarrow>
     (\<exists>key token. secret_entry (api_key c) = Inr key \<and>
        secret_entry (azure_ad_token c) = Inr token \<and>
        d = default_to_dict (init_parameters_of c key token))"
  unfolding to_dict_def init_parameters_of_def document_def
  by (auto simp: and_then_Inr Let_def)

lemma init_stored_fields:
  assumes "init w env a = Inr c"
  shows "api_key c = p_api_key a" "azure_ad_token c = p_azure_ad_token a"
    "streaming_callback c = p_streaming_callback a"
    "azure_ad_token_provider c = p_azure_ad_token_provider a"
  using assms unfolding init_Inr by (auto simp: assemble_def)

subsection \<open>The shape of the document\<close>

text \<open>
  C9. \<^verbatim>\<open>to_dict\<close> returns a document and nothing else; no attribute of the component is
  assigned. Whenever it returns a document, that is the named-type wrapper around an
  \<^verbatim>\<open>init_parameters\<close> mapping whose keys are exactly \<^verbatim>\<open>azure_endpoint\<close>, \<^verbatim>\<open>azure_deployment\<close>,
  \<^verbatim>\<open>organization\<close>, \<^verbatim>\<open>api_version\<close>, \<^verbatim>\<open>streaming_callback\<close>, \<^verbatim>\<open>generation_kwargs\<close>,
  \<^verbatim>\<open>system_prompt\<close>, \<^verbatim>\<open>api_key\<close>, \<^verbatim>\<open>azure_ad_token\<close>, \<^verbatim>\<open>timeout\<close>, \<^verbatim>\<open>max_retries\<close>,
  \<^verbatim>\<open>default_headers\<close> and \<^verbatim>\<open>azure_ad_token_provider\<close>, each once; the two callable fields are
  the callable's name when there is one and \<^verbatim>\<open>None\<close> otherwise, and the other plain fields
  are copied. It returns a document exactly when the secrets' own serialization does, and the
  document is a function of the stored configuration: it depends neither on the client nor
  on the derived \<^verbatim>\<open>model\<close> attribute.
\<close>

theorem to_dict_projection:
  "(\<forall>d. to_dict c = Inr d \<longrightarrow>
      (\<exists>ip. d = default_to_dict ip \<and>
         map fst ip =
           [''azure_endpoint'', ''azure_deployment'', ''organization'', ''api_version'',
            ''streaming_callback'', ''generation_kwargs'', ''system_prompt'', ''api_key'',
            ''azure_ad_token'', ''timeout'', ''max_retries'', ''default_headers'',
            ''azure_ad_token_provider''] \<and>
         map_of ip ''streaming_callback''
           = Some (case streaming_callback c of
                     None \<Rightarrow> PNone | Some f \<Rightarrow> PStr (serialize_callable f)) \<and>
         map_of ip ''azure_ad_token_provider''
           = Some (case azure_ad_token_provider c of
                     None \<Rightarrow> PNone | Some f \<Rightarrow> PStr (serialize_callable f)) \<and>
         map_of ip ''azure_endpoint'' = Some (PStr (azure_endpoint c)) \<and>
         map_of ip ''azure_deployment'' = Some (of_optional_str (azure_deployment c)) \<and>
         map_of ip ''organization'' = Some (of_optional_str (organization c)) \<and>
         map_of ip ''api_version'' = Some (of_optional_str (api_version c)) \<and>
         map_of ip ''generation_kwargs'' = Some (PDict (generation_kwargs c)) \<and>
         map_of ip ''system_prompt'' = Some (of_optional_str (system_prompt c)) \<and>
         map_of ip ''timeout'' = Some (PFloat (timeout c)) \<and>
         map_of ip ''max_retries'' = Some (PInt (max_retries c)) \<and>
         map_of ip ''default_headers'' = Some (PDict (default_headers c)))) \<and>
   ((\<exists>d. to_dict c = Inr d) \<longleftrightarrow>
      (\<exists>key token. secret_entry (api_key c) = Inr key \<and>
         secret_entry (azure_ad_token c) = Inr token)) \<and>
   (\<forall>cl m. to_dict (c\<lparr>model := m, client := cl\<rparr>) = to_dict c)"
  (is "?shape \<and> ?returns \<and> ?projection")
proof -
  have 1: ?shape
  proof (intro allI impI)
    fix d assume "to_dict c = Inr d"
    then obtain key token where d: "d = default_to_dict (init_parameters_of c key token)"
      unfolding to_dict_Inr by blast
    show "\<exists>ip. d = default_to_dict ip \<and>
         map fst ip =
           [''azure_endpoint'', ''azure_deployment'', ''organization'', ''api_version'',
            ''streaming_callback'', ''generation_kwargs'', ''system_prompt'', ''api_key'',
            ''azure_ad_token'', ''timeout'', ''max_retries'', ''default_headers'',
            ''azure_ad_token_provider''] \<and>
         map_of ip ''streaming_callback''
           = Some (case streaming_callback c of
                     None \<Rightarrow> PNone | Some f \<Rightarrow> PStr (serialize_callable f)) \<and>
         map_of ip ''azure_ad_token_provider''
           = Some (case azure_ad_token_provider c of
                     None \<Rightarrow> PNone | Some f \<Rightarrow> PStr (serialize_callable f)) \<and>
         map_of ip ''azure_endpoint'' = Some (PStr (azure_endpoint c)) \<and>
         map_of ip ''azure_deployment'' = Some (of_optional_str (azure_deployment c)) \<and>
         map_of ip ''organization'' = Some (of_optional_str (organization c)) \<and>
         map_of ip ''api_version'' = Some (of_optional_str (api_version c)) \<and>
         map_of ip ''generation_kwargs'' = Some (PDict (generation_kwargs c)) \<and>
         map_of ip ''system_prompt'' = Some (of_optional_str (system_prompt c)) \<and>
         map_of ip ''timeout'' = Some (PFloat (timeout c)) \<and>
         map_of ip ''max_retries'' = Some (PInt (max_retries c)) \<and>
         map_of ip ''default_headers'' = Some (PDict (default_headers c))"
      unfolding d
      by (rule exI [of _ "init_parameters_of c key token"])
        (simp add: init_parameters_of_def document_def split: option.splits)
  qed
  have 2: ?returns
    unfolding to_dict_Inr by blast
  have 3: ?projection
    unfolding to_dict_def by simp
  show ?thesis by (rule conjI [OF 1 conjI [OF 2 3]])
qed

text \<open>
  A component with a streaming callback and no token provider: the thirteen keys, the
  callback's name, and \<^verbatim>\<open>None\<close> for the provider.
\<close>

theorem to_dict_projection_witness:
  "(case to_dict
      (assemble
         (no_args\<lparr>arg_streaming_callback := Passed (Some (Callable ''builtins.print''))\<rparr>)
         ''https://e'' 30 5 ()) of
      Inl e \<Rightarrow> False
    | Inr d \<Rightarrow>
        (case map_of d ''init_parameters'' of
           Some (PDict ip) \<Rightarrow>
             map fst ip =
               [''azure_endpoint'', ''azure_deployment'', ''organization'', ''api_version'',
                ''streaming_callback'', ''generation_kwargs'', ''system_prompt'', ''api_key'',
                ''azure_ad_token'', ''timeout'', ''max_retries'', ''default_headers'',
                ''azure_ad_token_provider''] \<and>
             map_of ip ''streaming_callback'' = Some (PStr ''builtins.print'') \<and>
             map_of ip ''azure_ad_token_provider'' = Some PNone
         | _ \<Rightarrow> False))"
proof -
  let ?c = "assemble
         (no_args\<lparr>arg_streaming_callback := Passed (Some (Callable ''builtins.print''))\<rparr>)
         ''https://e'' 30 5 ()"
  have f: "streaming_callback ?c = Some (Callable ''builtins.print'')"
    "azure_ad_token_provider ?c = None"
    by (simp_all add: assemble_def parameters_def no_args_def)
  obtain d where d: "to_dict ?c = Inr d"
    by (simp add: to_dict_def assemble_def parameters_def no_args_def from_env_var_def)
  from to_dict_projection [of ?c, THEN conjunct1, rule_format, OF d] d
  show ?thesis
    by (clarsimp simp: f default_to_dict_def)
qed

subsection \<open>Secrets in the document\<close>

text \<open>
  C4. In every document that \<^verbatim>\<open>to_dict\<close> returns, the entry \<^verbatim>\<open>api_key\<close> is \<^verbatim>\<open>None\<close> when the
  component has no such reference and is otherwise what the reference's own \<^verbatim>\<open>to_dict\<close>
  returns; likewise for \<^verbatim>\<open>azure_ad_token\<close>. And the document does not depend on what the
  references resolve to: two constructions from the same arguments, on any platforms and in
  any environments, that arrive at the same endpoint, timeout and retry count serialize
  identically.
\<close>

theorem secret_entries:
  "(\<forall>d. to_dict c = Inr d \<longrightarrow>
      (\<exists>ip. d = default_to_dict ip \<and>
         (case api_key c of
            None \<Rightarrow> map_of ip ''api_key'' = Some PNone
          | Some s \<Rightarrow> \<exists>v. Secret_to_dict s = Inr v \<and> map_of ip ''api_key'' = Some v) \<and>
         (case azure_ad_token c of
            None \<Rightarrow> map_of ip ''azure_ad_token'' = Some PNone
          | Some s \<Rightarrow> \<exists>v. Secret_to_dict s = Inr v \<and> map_of ip ''azure_ad_token'' = Some v))) \<and>
   (\<forall>(w :: 'a platform) env (w' :: 'b platform) env' a c'.
      init w env a = Inr c \<and> init w' env' a = Inr c' \<and>
      azure_endpoint c' = azure_endpoint c \<and> timeout c' = timeout c \<and>
      max_retries c' = max_retries c
      \<longrightarrow> to_dict c' = to_dict c)"
  (is "?entries \<and> ?independent")
proof -
  have 1: ?entries
  proof (intro allI impI)
    fix d assume "to_dict c = Inr d"
    then obtain key token where
      key: "secret_entry (api_key c) = Inr key" and
      token: "secret_entry (azure_ad_token c) = Inr token" and
      d: "d = default_to_dict (init_parameters_of c key token)"
      unfolding to_dict_Inr by blast
    have "case api_key c of
            None \<Rightarrow> key = PNone
          | Some s \<Rightarrow> Secret_to_dict s = Inr key"
      using key by (cases "api_key c") auto
    moreover have "case azure_ad_token c of
            None \<Rightarrow> token = PNone
          | Some s \<Rightarrow> Secret_to_dict s = Inr token"
      using token by (cases "azure_ad_token c") auto
    ultimately show "\<exists>ip. d = default_to_dict ip \<and>
         (case api_key c of
            None \<Rightarrow> map_of ip ''api_key'' = Some PNone
          | Some s \<Rightarrow> \<exists>v. Secret_to_dict s = Inr v \<and> map_of ip ''api_key'' = Some v) \<and>
         (case azure_ad_token c of
            None \<Rightarrow> map_of ip ''azure_ad_token'' = Some PNone
          | Some s \<Rightarrow> \<exists>v. Secret_to_dict s = Inr v \<and> map_of ip ''azure_ad_token'' = Some v)"
      unfolding d
      by (intro exI [of _ "init_parameters_of c key token"])
        (simp add: init_parameters_of_def document_def split: option.splits)
  qed
  have 2: ?independent
  proof (intro allI impI, elim conjE)
    fix w :: "'a platform" and w' :: "'b platform" and env env' a c'
    assume i: "init w env a = Inr c" "init w' env' a = Inr c'" and
      same: "azure_endpoint c' = azure_endpoint c" "timeout c' = timeout c"
        "max_retries c' = max_retries c"
    from i obtain e t n cl e' t' n' cl' where
      "c = assemble a e t n cl" "c' = assemble a e' t' n' cl'"
      unfolding init_Inr by blast
    with same show "to_dict c' = to_dict c"
      by (simp add: assemble_def to_dict_def)
  qed
  show ?thesis by (rule conjI [OF 1 2])
qed

text \<open>
  A component whose key is the default reference and whose token is absent, built where the
  key's variable holds "hunter2": the document names the variable for the key and has
  \<^verbatim>\<open>None\<close> for the token.
\<close>

theorem secret_entries_witness:
  "(case init plain_platform [''AZURE_OPENAI_API_KEY'' \<mapsto> ''hunter2'']
           (no_args\<lparr>arg_azure_endpoint := Passed (Some ''https://e''),
                    arg_azure_ad_token := Passed None\<rparr>) of
      Inl e \<Rightarrow> False
    | Inr c \<Rightarrow>
        (case to_dict c of
           Inl e \<Rightarrow> False
         | Inr d \<Rightarrow>
             (case map_of d ''init_parameters'' of
                Some (PDict ip) \<Rightarrow>
                  map_of ip ''api_key'' = Some (PEnvVar ''AZURE_OPENAI_API_KEY'' False) \<and>
                  map_of ip ''azure_ad_token'' = Some PNone
              | _ \<Rightarrow> False)))"
proof -
  let ?env = "[''AZURE_OPENAI_API_KEY'' \<mapsto> ''hunter2'']"
  let ?a = "no_args\<lparr>arg_azure_endpoint := Passed (Some ''https://e''),
                    arg_azure_ad_token := Passed None\<rparr>"
  obtain c where c: "init plain_platform ?env ?a = Inr c"
    by (simp add: construction_def parameters_def plain_float_30 plain_int_5)
  from init_stored_fields [OF c]
  have f: "api_key c = Some (EnvVarSecret ''AZURE_OPENAI_API_KEY'' False)"
    "azure_ad_token c = None"
    by (simp_all add: parameters_def no_args_def from_env_var_def)
  obtain d where d: "to_dict c = Inr d"
    unfolding to_dict_Inr by (simp add: f)
  from secret_entries [of c, THEN conjunct1, rule_format, OF d]
  obtain ip where "d = default_to_dict ip"
    "map_of ip ''api_key'' = Some (PEnvVar ''AZURE_OPENAI_API_KEY'' False)"
    "map_of ip ''azure_ad_token'' = Some PNone"
    by (auto simp: f)
  then show ?thesis using c d by (simp add: default_to_dict_def)
qed

subsection \<open>Normalized defaults\<close>

text \<open>
  C10, as the code has it. A component that construction returns has the empty dictionary
  as \<^verbatim>\<open>generation_kwargs\<close> when none (or \<^verbatim>\<open>None\<close>) was passed, and likewise for
  \<^verbatim>\<open>default_headers\<close>; when \<^verbatim>\<open>azure_deployment\<close> is \<^verbatim>\<open>None\<close> its \<^verbatim>\<open>model\<close> is "gpt-4o-mini" while
  its \<^verbatim>\<open>azure_deployment\<close> stays \<^verbatim>\<open>None\<close>. \<^verbatim>\<open>to_dict\<close> writes the stored dictionaries, hence the
  empty ones; it writes the stored \<^verbatim>\<open>azure_deployment\<close>, hence \<^verbatim>\<open>None\<close>, and it has no entry
  for \<^verbatim>\<open>model\<close>.
\<close>

theorem normalized_defaults:
  assumes "init w env a = Inr c"
  shows "(p_generation_kwargs a = None \<longrightarrow> generation_kwargs c = []) \<and>
         (p_default_headers a = None \<longrightarrow> default_headers c = []) \<and>
         (p_azure_deployment a = None
            \<longrightarrow> model c = ''gpt-4o-mini'' \<and> azure_deployment c = None) \<and>
         (\<forall>d. to_dict c = Inr d \<longrightarrow>
            (\<exists>ip. d = default_to_dict ip \<and>
               map_of ip ''generation_kwargs'' = Some (PDict (generation_kwargs c)) \<and>
               map_of ip ''default_headers'' = Some (PDict (default_headers c)) \<and>
               map_of ip ''azure_deployment'' = Some (of_optional_str (azure_deployment c)) \<and>
               map_of ip ''model'' = None))"
proof -
  from assms obtain e t n cl where c: "c = assemble a e t n cl"
    unfolding init_Inr by blast
  have 1: "p_generation_kwargs a = None \<longrightarrow> generation_kwargs c = []"
    and 2: "p_default_headers a = None \<longrightarrow> default_headers c = []"
    and 3: "p_azure_deployment a = None
            \<longrightarrow> model c = ''gpt-4o-mini'' \<and> azure_deployment c = None"
    unfolding c by (simp_all add: assemble_def)
  have 4: "\<exists>ip. d = default_to_dict ip \<and>
               map_of ip ''generation_kwargs'' = Some (PDict (generation_kwargs c)) \<and>
               map_of ip ''default_headers'' = Some (PDict (default_headers c)) \<and>
               map_of ip ''azure_deployment'' = Some (of_optional_str (azure_deployment c)) \<and>
               map_of ip ''model'' = None"
    if "to_dict c = Inr d" for d
  proof -
    from that obtain key token where d: "d = default_to_dict (init_parameters_of c key token)"
      unfolding to_dict_Inr by blast
    show ?thesis unfolding d
      by (intro exI [of _ "init_parameters_of c key token"])
        (simp add: init_parameters_of_def document_def)
  qed
  from 4 have "\<forall>d. to_dict c = Inr d \<longrightarrow>
            (\<exists>ip. d = default_to_dict ip \<and>
               map_of ip ''generation_kwargs'' = Some (PDict (generation_kwargs c)) \<and>
               map_of ip ''default_headers'' = Some (PDict (default_headers c)) \<and>
               map_of ip ''azure_deployment'' = Some (of_optional_str (azure_deployment c)) \<and>
               map_of ip ''model'' = None)"
    by (intro allI impI)
  then show ?thesis by (rule conjI [OF 1 conjI [OF 2 conjI [OF 3]]])
qed

text \<open>
  \<^verbatim>\<open>None\<close> passed for the two dictionaries and for the deployment: the component has two empty
  dictionaries, the model "gpt-4o-mini" and no deployment.
\<close>

theorem normalized_defaults_witness:
  "(case init plain_platform [''AZURE_OPENAI_API_KEY'' \<mapsto> ''k'']
           (no_args\<lparr>arg_azure_endpoint := Passed (Some ''https://e''),
                    arg_azure_deployment := Passed None,
                    arg_generation_kwargs := Passed None,
                    arg_default_headers := Passed None\<rparr>) of
      Inl e \<Rightarrow> False
    | Inr c \<Rightarrow> generation_kwargs c = [] \<and> default_headers c = [] \<and>
              model c = ''gpt-4o-mini'' \<and> azure_deployment c = None)"
proof -
  let ?a = "no_args\<lparr>arg_azure_endpoint := Passed (Some ''https://e''),
                    arg_azure_deployment := Passed None,
                    arg_generation_kwargs := Passed None,
                    arg_default_headers := Passed None\<rparr>"
  obtain c where c: "init plain_platform [''AZURE_OPENAI_API_KEY'' \<mapsto> ''k''] ?a = Inr c"
    by (simp add: construction_def parameters_def plain_float_30 plain_int_5)
  have p: "p_generation_kwargs ?a = None" "p_default_headers ?a = None"
    "p_azure_deployment ?a = None"
    by (simp_all add: parameters_def no_args_def)
  from normalized_defaults [OF c] p show ?thesis unfolding c by simp
qed

text \<open>
  C10 as stated fails in its last clause: for a component built with
  \<^verbatim>\<open>azure_deployment=None\<close> the model is "gpt-4o-mini", but the document has \<^verbatim>\<open>None\<close> under
  \<^verbatim>\<open>azure_deployment\<close>, the null that was passed, and no entry \<^verbatim>\<open>model\<close>.
\<close>

theorem normalized_defaults_counterexample:
  "(case init plain_platform [''AZURE_OPENAI_API_KEY'' \<mapsto> ''k'']
           (no_args\<lparr>arg_azure_endpoint := Passed (Some ''https://e''),
                    arg_azure_deployment := Passed None\<rparr>) of
      Inl e \<Rightarrow> False
    | Inr c \<Rightarrow> model c = ''gpt-4o-mini'' \<and>
        (case to_dict c of
           Inl e \<Rightarrow> False
         | Inr d \<Rightarrow>
             (case map_of d ''init_parameters'' of
                Some (PDict ip) \<Rightarrow>
                  map_of ip ''azure_deployment'' = Some PNone \<and> map_of ip ''model'' = None
              | _ \<Rightarrow> False)))"
  by (simp add: construction_def parameters_def plain_float_30 plain_int_5
      to_dict_def default_to_dict_def)

subsection \<open>The round trip\<close>

lemma then_run_Some_Inr:
  "then_run m f = Some (Inr y) \<longleftrightarrow> (\<exists>x. m = Some (Inr x) \<and> f x = Some (Inr y))"
proof (cases m)
  case None
  then show ?thesis by simp
next
  case (Some r)
  then show ?thesis by (cases r) auto
qed

lemma from_dict_arguments:
  "from_dict w env d =
     then_run (reconstructed_arguments (locatable w) d) (\<lambda>b. Some (init w env b))"
proof (cases "reconstruct_parameters (locatable w) d")
  case None
  then show ?thesis
    by (simp add: from_dict_def reconstructed_arguments_def)
next
  case (Some r)
  then show ?thesis
    by (cases r) (simp_all add: from_dict_def reconstructed_arguments_def default_from_dict_def)
qed

lemma deserialize_secrets_other:
  "deserialize_secrets_inplace ip keys = Inr p \<Longrightarrow> k \<notin> set keys \<Longrightarrow> map_of p k = map_of ip k"
proof (induction keys arbitrary: ip)
  case Nil
  then show ?case by simp
next
  case (Cons key keys)
  show ?case
  proof (cases "map_of ip key")
    case None
    with Cons show ?thesis by simp
  next
    case (Some v)
    show ?thesis
    proof (cases "v = PNone")
      case True
      with Some Cons show ?thesis by simp
    next
      case False
      with Some Cons.prems(1) obtain s where
        "deserialize_secrets_inplace (AList.update key (PSecret s) ip) keys = Inr p"
        by (cases v) (auto simp: and_then_Inr)
      from Cons.IH [OF this] Cons.prems(2) show ?thesis
        by (simp add: update_conv')
    qed
  qed
qed

lemma deserialize_secrets_null:
  "deserialize_secrets_inplace ip keys = Inr p \<Longrightarrow>
     map_of p k = Some PNone \<longleftrightarrow> map_of ip k = Some PNone"
proof (induction keys arbitrary: ip)
  case Nil
  then show ?case by simp
next
  case (Cons key keys)
  show ?case
  proof (cases "map_of ip key")
    case None
    with Cons show ?thesis by simp
  next
    case (Some v)
    show ?thesis
    proof (cases "v = PNone")
      case True
      with Some Cons show ?thesis by simp
    next
      case False
      with Some Cons.prems(1) obtain s where
        "deserialize_secrets_inplace (AList.update key (PSecret s) ip) keys = Inr p"
        by (cases v) (auto simp: and_then_Inr)
      from Cons.IH [OF this] Some False show ?thesis
        by (auto simp: update_conv')
    qed
  qed
qed

lemma deserialize_callable_other:
  "deserialize_callable_entry loc key ip = Some (Inr p) \<Longrightarrow> k \<noteq> key \<Longrightarrow>
     map_of p k = map_of ip k"
  unfolding deserialize_callable_entry_def
  by (auto simp: and_then_Inr update_conv' split: option.splits if_splits pyval.splits)

lemma reconstruct_entries:
  assumes "reconstruct_parameters loc d = Some (Inr p)"
    and "map_of d ''init_parameters'' = Some (PDict ip)"
  shows "map_of p ''azure_endpoint'' = map_of ip ''azure_endpoint''"
    and "map_of p ''api_key'' = Some PNone \<longleftrightarrow> map_of ip ''api_key'' = Some PNone"
    and "map_of p ''azure_ad_token'' = Some PNone
           \<longleftrightarrow> map_of ip ''azure_ad_token'' = Some PNone"
proof -
  from assms obtain p1 p2 where
    1: "deserialize_secrets_inplace ip [''api_key'', ''azure_ad_token''] = Inr p1" and
    2: "deserialize_callable_entry loc ''streaming_callback'' p1 = Some (Inr p2)" and
    3: "deserialize_callable_entry loc ''azure_ad_token_provider'' p2 = Some (Inr p)"
    unfolding reconstruct_parameters_def by (auto simp: then_run_Some_Inr)
  have other: "map_of p k = map_of p1 k"
    if "k \<noteq> ''streaming_callback''" "k \<noteq> ''azure_ad_token_provider''" for k
    using deserialize_callable_other [OF 3 that(2)] deserialize_callable_other [OF 2 that(1)]
    by simp
  show "map_of p ''azure_endpoint'' = map_of ip ''azure_endpoint''"
    using other [of "''azure_endpoint''"] deserialize_secrets_other [OF 1, of "''azure_endpoint''"]
    by simp
  show "map_of p ''api_key'' = Some PNone \<longleftrightarrow> map_of ip ''api_key'' = Some PNone"
    using other [of "''api_key''"] deserialize_secrets_null [OF 1, of "''api_key''"]
    by simp
  show "map_of p ''azure_ad_token'' = Some PNone
           \<longleftrightarrow> map_of ip ''azure_ad_token'' = Some PNone"
    using other [of "''azure_ad_token''"] deserialize_secrets_null [OF 1, of "''azure_ad_token''"]
    by simp
qed

lemma typed_arguments_keywords:
  assumes "typed_arguments p = Some b"
  shows "keyword as_optional_str p ''azure_endpoint'' = Some (arg_azure_endpoint b)"
    and "keyword as_optional_secret p ''api_key'' = Some (arg_api_key b)"
    and "keyword as_optional_secret p ''azure_ad_token'' = Some (arg_azure_ad_token b)"
  using assms unfolding typed_arguments_def
  by (auto simp: bind_eq_Some_conv)

lemma bind_keywords_Inr: "bind_keywords p = Some (Inr b) \<Longrightarrow> typed_arguments p = Some b"
  unfolding bind_keywords_def by (auto split: list.splits)

lemma keyword_endpoint_falsy:
  assumes "keyword as_optional_str p key = Some x"
  shows "\<not> truthy_str (default_to None x) \<longleftrightarrow>
     (map_of p key = None \<or> map_of p key = Some PNone \<or> map_of p key = Some (PStr []))"
  using assms unfolding keyword_def
  by (cases "map_of p key"; cases "the (map_of p key)") auto

lemma keyword_secret_null:
  assumes "keyword as_optional_secret p key = Some x"
  shows "default_to (Some s) x = None \<longleftrightarrow> map_of p key = Some PNone"
  using assms unfolding keyword_def
  by (cases "map_of p key"; cases "the (map_of p key)") auto


lemma truthy_str_falsy: "\<not> truthy_str x \<longleftrightarrow> x = None \<or> x = Some []"
  by (cases x) auto

lemma init_Inr_invariants:
  "init w env a = Inr c \<Longrightarrow>
     azure_endpoint c \<noteq> [] \<and> (api_key c \<noteq> None \<or> azure_ad_token c \<noteq> None)"
  unfolding init_Inr by (auto simp: assemble_def)

lemma resolved_endpoint_falsy:
  "\<not> truthy_str (resolved_endpoint env a) \<longleftrightarrow>
     \<not> truthy_str (p_azure_endpoint a) \<and>
     (env ''AZURE_OPENAI_ENDPOINT'' = None \<or> env ''AZURE_OPENAI_ENDPOINT'' = Some [])"
  unfolding resolved_endpoint_def or_str_def by (auto simp: truthy_str_falsy)

lemma document_validation:
  assumes ip: "map_of d ''init_parameters'' = Some (PDict ip)"
    and b: "reconstructed_arguments loc d = Some (Inr b)"
  shows "\<not> truthy_str (resolved_endpoint env b) \<longleftrightarrow>
           (map_of ip ''azure_endpoint'' = None \<or> map_of ip ''azure_endpoint'' = Some PNone \<or>
            map_of ip ''azure_endpoint'' = Some (PStr [])) \<and>
           (env ''AZURE_OPENAI_ENDPOINT'' = None \<or> env ''AZURE_OPENAI_ENDPOINT'' = Some [])"
    and "p_api_key b = None \<longleftrightarrow> map_of ip ''api_key'' = Some PNone"
    and "p_azure_ad_token b = None \<longleftrightarrow> map_of ip ''azure_ad_token'' = Some PNone"
proof -
  from b obtain p where
    p: "reconstruct_parameters loc d = Some (Inr p)" and "bind_keywords p = Some (Inr b)"
    unfolding reconstructed_arguments_def by (auto simp: then_run_Some_Inr)
  then have t: "typed_arguments p = Some b" by (simp add: bind_keywords_Inr)
  note k = typed_arguments_keywords [OF t] and r = reconstruct_entries [OF p ip]
  show "\<not> truthy_str (resolved_endpoint env b) \<longleftrightarrow>
           (map_of ip ''azure_endpoint'' = None \<or> map_of ip ''azure_endpoint'' = Some PNone \<or>
            map_of ip ''azure_endpoint'' = Some (PStr [])) \<and>
           (env ''AZURE_OPENAI_ENDPOINT'' = None \<or> env ''AZURE_OPENAI_ENDPOINT'' = Some [])"
    unfolding resolved_endpoint_falsy p_azure_endpoint_def
      keyword_endpoint_falsy [OF k(1)] r(1) ..
  show "p_api_key b = None \<longleftrightarrow> map_of ip ''api_key'' = Some PNone"
    unfolding p_api_key_def keyword_secret_null [OF k(2)] r(2) ..
  show "p_azure_ad_token b = None \<longleftrightarrow> map_of ip ''azure_ad_token'' = Some PNone"
    unfolding p_azure_ad_token_def keyword_secret_null [OF k(3)] r(3) ..
qed


lemma secret_entry_serializable:
  "serializable so \<Longrightarrow> \<exists>v. secret_entry so = Inr v"
  by (cases so rule: serializable.cases) auto

lemma secrets_round_trip:
  assumes "serializable so1" "serializable so2"
    "secret_entry so1 = Inr key" "secret_entry so2 = Inr token"
  shows "deserialize_secrets_inplace
           (document x1 x2 x3 x4 x5 x6 x7 key token x10 x11 x12 x13)
           [''api_key'', ''azure_ad_token'']
         = Inr (document x1 x2 x3 x4 x5 x6 x7 (secret_object so1) (secret_object so2)
                  x10 x11 x12 x13)"
  using assms
  by (cases so1 rule: serializable.cases; cases so2 rule: serializable.cases)
    (auto simp: document_def)

lemma callback_round_trip:
  assumes "importable loc f"
  shows "deserialize_callable_entry loc ''streaming_callback''
           (document x1 x2 x3 x4 (callable_name f) x6 x7 x8 x9 x10 x11 x12 x13)
         = Some (Inr (document x1 x2 x3 x4 (callable_object f) x6 x7 x8 x9 x10 x11 x12 x13))"
proof (cases f)
  case None
  then show ?thesis
    by (simp add: deserialize_callable_entry_def document_def)
next
  case (Some g)
  with assms show ?thesis
    by (cases g)
      (simp add: deserialize_callable_entry_def document_def deserialize_callable_def)
qed

lemma provider_round_trip:
  assumes "importable loc f"
  shows "deserialize_callable_entry loc ''azure_ad_token_provider''
           (document x1 x2 x3 x4 x5 x6 x7 x8 x9 x10 x11 x12 (callable_name f))
         = Some (Inr (document x1 x2 x3 x4 x5 x6 x7 x8 x9 x10 x11 x12 (callable_object f)))"
proof (cases f)
  case None
  then show ?thesis
    by (simp add: deserialize_callable_entry_def document_def)
next
  case (Some g)
  with assms show ?thesis
    by (cases g)
      (simp add: deserialize_callable_entry_def document_def deserialize_callable_def)
qed

lemma as_optional_str_of [simp]: "as_optional_str (of_optional_str x) = Some x"
  by (cases x) auto

lemma as_optional_secret_object [simp]: "as_optional_secret (secret_object x) = Some x"
  by (cases x) auto

lemma as_optional_callable_object [simp]: "as_optional_callable (callable_object x) = Some x"
  by (cases x) auto

lemma keyword_document:
  "keyword as (document x1 x2 x3 x4 x5 x6 x7 x8 x9 x10 x11 x12 x13) ''azure_endpoint''
     = map_option Passed (as x1)"
  "keyword as (document x1 x2 x3 x4 x5 x6 x7 x8 x9 x10 x11 x12 x13) ''azure_deployment''
     = map_option Passed (as x2)"
  "keyword as (document x1 x2 x3 x4 x5 x6 x7 x8 x9 x10 x11 x12 x13) ''organization''
     = map_option Passed (as x3)"
  "keyword as (document x1 x2 x3 x4 x5 x6 x7 x8 x9 x10 x11 x12 x13) ''api_version''
     = map_option Passed (as x4)"
  "keyword as (document x1 x2 x3 x4 x5 x6 x7 x8 x9 x10 x11 x12 x13) ''streaming_callback''
     = map_option Passed (as x5)"
  "keyword as (document x1 x2 x3 x4 x5 x6 x7 x8 x9 x10 x11 x12 x13) ''generation_kwargs''
     = map_option Passed (as x6)"
  "keyword as (document x1 x2 x3 x4 x5 x6 x7 x8 x9 x10 x11 x12 x13) ''system_prompt''
     = map_option Passed (as x7)"
  "keyword as (document x1 x2 x3 x4 x5 x6 x7 x8 x9 x10 x11 x12 x13) ''api_key''
     = map_option Passed (as x8)"
  "keyword as (document x1 x2 x3 x4 x5 x6 x7 x8 x9 x10 x11 x12 x13) ''azure_ad_token''
     = map_option Passed (as x9)"
  "keyword as (document x1 x2 x3 x4 x5 x6 x7 x8 x9 x10 x11 x12 x13) ''timeout''
     = map_option Passed (as x10)"
  "keyword as (document x1 x2 x3 x4 x5 x6 x7 x8 x9 x10 x11 x12 x13) ''max_retries''
     = map_option Passed (as x11)"
  "keyword as (document x1 x2 x3 x4 x5 x6 x7 x8 x9 x10 x11 x12 x13) ''default_headers''
     = map_option Passed (as x12)"
  "keyword as (document x1 x2 x3 x4 x5 x6 x7 x8 x9 x10 x11 x12 x13) ''azure_ad_token_provider''
     = map_option Passed (as x13)"
  by (simp_all add: keyword_def document_def)

lemma document_keys:
  "filter (\<lambda>key. key \<notin> set parameter_names)
     (map fst (document x1 x2 x3 x4 x5 x6 x7 x8 x9 x10 x11 x12 x13)) = []"
  by (simp add: document_def parameter_names_def)

lemma bind_keywords_document:
  "bind_keywords
     (document (PStr (azure_endpoint c)) (of_optional_str (azure_deployment c))
        (of_optional_str (organization c)) (of_optional_str (api_version c))
        (callable_object (streaming_callback c)) (PDict (generation_kwargs c))
        (of_optional_str (system_prompt c)) (secret_object (api_key c))
        (secret_object (azure_ad_token c)) (PFloat (timeout c)) (PInt (max_retries c))
        (PDict (default_headers c)) (callable_object (azure_ad_token_provider c)))
   = Some (Inr (passed_args c))"
  unfolding bind_keywords_def document_keys typed_arguments_def
  by (simp add: keyword_document passed_args_def)

lemma or_empty_idem: "or_empty (Some (or_empty d)) = or_empty d"
  by (cases d) auto

lemma p_passed_args:
  "p_azure_endpoint (passed_args c) = Some (azure_endpoint c)"
  "p_api_version (passed_args c) = api_version c"
  "p_azure_deployment (passed_args c) = azure_deployment c"
  "p_api_key (passed_args c) = api_key c"
  "p_azure_ad_token (passed_args c) = azure_ad_token c"
  "p_organization (passed_args c) = organization c"
  "p_streaming_callback (passed_args c) = streaming_callback c"
  "p_system_prompt (passed_args c) = system_prompt c"
  "p_timeout (passed_args c) = Some (timeout c)"
  "p_max_retries (passed_args c) = Some (max_retries c)"
  "p_generation_kwargs (passed_args c) = Some (generation_kwargs c)"
  "p_default_headers (passed_args c) = Some (default_headers c)"
  "p_azure_ad_token_provider (passed_args c) = azure_ad_token_provider c"
  by (simp_all add: parameters_def passed_args_def)

text \<open>
  Constructing again from the attributes of a constructed component, on any platform: the
  SDK constructor is called with the arguments of the first construction, and what it returns
  is the only attribute that can differ.
\<close>

lemma init_passed_args:
  assumes "init w env a = Inr c"
  shows "\<exists>k. AzureOpenAI w env k = Inr (client c) \<and>
           (\<forall>w'. init w' env (passed_args c) =
              (case AzureOpenAI w' env k of
                 Inl msg \<Rightarrow> Inl (ClientError msg)
               | Inr cl \<Rightarrow> Inr (c\<lparr>client := cl\<rparr>)))"
proof -
  from assms obtain e t n k cl where
    e: "resolved_endpoint env a = Some e" "e \<noteq> []" and
    cred: "\<not> (p_api_key a = None \<and> p_azure_ad_token a = None)" and
    k: "client_arguments env a e t n = Inr k" and
    cl: "build_client w env k = Inr cl" and
    c: "c = assemble a e t n cl"
    unfolding init_Inr by blast
  let ?b = "passed_args c"
  have p: "p_azure_endpoint ?b = Some e" "p_api_version ?b = p_api_version a"
    "p_azure_deployment ?b = p_azure_deployment a" "p_api_key ?b = p_api_key a"
    "p_azure_ad_token ?b = p_azure_ad_token a" "p_organization ?b = p_organization a"
    "p_streaming_callback ?b = p_streaming_callback a"
    "p_system_prompt ?b = p_system_prompt a" "p_timeout ?b = Some t"
    "p_max_retries ?b = Some n"
    "p_generation_kwargs ?b = Some (or_empty (p_generation_kwargs a))"
    "p_default_headers ?b = Some (or_empty (p_default_headers a))"
    "p_azure_ad_token_provider ?b = p_azure_ad_token_provider a"
    unfolding p_passed_args c by (simp_all add: assemble_def)
  have e': "resolved_endpoint env ?b = Some e"
    using e(2) by (simp add: resolved_endpoint_def or_str_def p)
  have cred': "\<not> (p_api_key ?b = None \<and> p_azure_ad_token ?b = None)"
    using cred by (simp add: p)
  have t': "effective_timeout w' env ?b = Inr t" for w' :: "'a platform"
    by (simp add: effective_timeout_def p)
  have n': "effective_max_retries w' env ?b = Inr n" for w' :: "'a platform"
    by (simp add: effective_max_retries_def p)
  have k': "client_arguments env ?b e t n = Inr k"
    using k by (simp add: client_arguments_def client_kwargs_of_def p or_empty_idem)
  have a': "assemble ?b e t n cl' = c\<lparr>client := cl'\<rparr>" for cl'
  proof -
    have "assemble ?b e t n cl' = assemble a e t n cl'"
      by (simp add: assemble_def [of ?b] assemble_def [of a] p or_empty_idem)
    also have "\<dots> = (assemble a e t n cl)\<lparr>client := cl'\<rparr>"
      by (simp add: assemble_def)
    finally show ?thesis by (simp only: c)
  qed
  have "init w' env ?b =
      (case AzureOpenAI w' env k of
         Inl msg \<Rightarrow> Inl (ClientError msg)
       | Inr cl \<Rightarrow> Inr (c\<lparr>client := cl\<rparr>))" for w' :: "'a platform"
    unfolding init_checks_pass [OF e' e(2) cred']
    by (simp add: t' n' k' a' build_client_def split: sum.splits)
  moreover have "AzureOpenAI w env k = Inr (client c)"
    using cl unfolding build_client_Inr c by (simp add: assemble_def)
  ultimately show ?thesis by blast
qed

lemma to_dict_document:
  assumes "secret_entry (api_key c) = Inr key" "secret_entry (azure_ad_token c) = Inr token"
  shows "to_dict c = Inr (default_to_dict
     (document (PStr (azure_endpoint c)) (of_optional_str (azure_deployment c))
        (of_optional_str (organization c)) (of_optional_str (api_version c))
        (callable_name (streaming_callback c)) (PDict (generation_kwargs c))
        (of_optional_str (system_prompt c)) key token (PFloat (timeout c))
        (PInt (max_retries c)) (PDict (default_headers c))
        (callable_name (azure_ad_token_provider c))))"
  using assms unfolding to_dict_def document_def by (simp add: Let_def)

lemma reconstruct_wrapper:
  "reconstruct_parameters loc (default_to_dict ip) =
     then_run (Some (deserialize_secrets_inplace ip [''api_key'', ''azure_ad_token''])) (\<lambda>p1.
     then_run (deserialize_callable_entry loc ''streaming_callback'' p1) (\<lambda>p2.
       deserialize_callable_entry loc ''azure_ad_token_provider'' p2))"
  unfolding reconstruct_parameters_def default_to_dict_def by simp

text \<open>
  C2, as the code has it. Let a component be returned by construction, let each of its two
  secret references be absent or an environment lookup, and let each of its two callables be
  absent or locatable under its non-empty name. Then \<^verbatim>\<open>to_dict\<close> returns a document, and
  \<^verbatim>\<open>from_dict\<close> of that document in the same environment, on any platform that locates the
  callables, calls the SDK constructor with the very arguments from which the component's
  client was built; if the SDK constructor accepts them once more, the result is a component
  equal to the first in every configuration attribute, holding the client that was built
  anew (and if it rejects them, its error is the result).

  Moreover the constructor's two checks are the ones that \<^verbatim>\<open>from_dict\<close> applies, read on the
  document itself. For every document whose parameters can be reconstructed and bound:
  \<^verbatim>\<open>from_dict\<close> fails with the ConfigurationError of the endpoint check exactly when the
  entry \<^verbatim>\<open>azure_endpoint\<close> is missing, \<^verbatim>\<open>None\<close> or empty and the endpoint variable is unset or
  empty; it fails with the one of the credential check exactly when an endpoint is available
  and the entries \<^verbatim>\<open>api_key\<close> and \<^verbatim>\<open>azure_ad_token\<close> are both \<^verbatim>\<open>None\<close>; and every component it
  returns is one that the constructor returns, with an endpoint and a credential reference.
\<close>

theorem round_trip:
  assumes "init w env a = Inr c"
    and "serializable (api_key c)" "serializable (azure_ad_token c)"
    and "importable (locatable w') (streaming_callback c)"
      "importable (locatable w') (azure_ad_token_provider c)"
  shows "(\<exists>d k. to_dict c = Inr d \<and> AzureOpenAI w env k = Inr (client c) \<and>
            from_dict w' env d =
              Some (case AzureOpenAI w' env k of
                      Inl msg \<Rightarrow> Inl (ClientError msg)
                    | Inr cl \<Rightarrow> Inr (c\<lparr>client := cl\<rparr>))) \<and>
         (\<forall>d ip b.
            map_of d ''init_parameters'' = Some (PDict ip) \<and>
            reconstructed_arguments (locatable w') d = Some (Inr b) \<longrightarrow>
            (from_dict w' env d = Some (Inl (ConfigurationError EndpointMissing)) \<longleftrightarrow>
               (map_of ip ''azure_endpoint'' = None \<or>
                map_of ip ''azure_endpoint'' = Some PNone \<or>
                map_of ip ''azure_endpoint'' = Some (PStr [])) \<and>
               (env ''AZURE_OPENAI_ENDPOINT'' = None \<or>
                env ''AZURE_OPENAI_ENDPOINT'' = Some [])) \<and>
            (from_dict w' env d = Some (Inl (ConfigurationError CredentialMissing)) \<longleftrightarrow>
               \<not> ((map_of ip ''azure_endpoint'' = None \<or>
                   map_of ip ''azure_endpoint'' = Some PNone \<or>
                   map_of ip ''azure_endpoint'' = Some (PStr [])) \<and>
                  (env ''AZURE_OPENAI_ENDPOINT'' = None \<or>
                   env ''AZURE_OPENAI_ENDPOINT'' = Some [])) \<and>
               map_of ip ''api_key'' = Some PNone \<and>
               map_of ip ''azure_ad_token'' = Some PNone) \<and>
            (\<forall>c'. from_dict w' env d = Some (Inr c') \<longrightarrow>
               init w' env b = Inr c' \<and> azure_endpoint c' \<noteq> [] \<and>
               (api_key c' \<noteq> None \<or> azure_ad_token c' \<noteq> None)))"
    (is "?round_trip \<and> ?validation")
proof -
  from assms(2,3) obtain key token where
    key: "secret_entry (api_key c) = Inr key" and
    token: "secret_entry (azure_ad_token c) = Inr token"
    using secret_entry_serializable by blast
  let ?ip = "document (PStr (azure_endpoint c)) (of_optional_str (azure_deployment c))
        (of_optional_str (organization c)) (of_optional_str (api_version c))
        (callable_name (streaming_callback c)) (PDict (generation_kwargs c))
        (of_optional_str (system_prompt c)) key token (PFloat (timeout c))
        (PInt (max_retries c)) (PDict (default_headers c))
        (callable_name (azure_ad_token_provider c))"
  have d: "to_dict c = Inr (default_to_dict ?ip)"
    by (rule to_dict_document [OF key token])
  have r: "reconstruct_parameters (locatable w') (default_to_dict ?ip)
      = Some (Inr (document (PStr (azure_endpoint c)) (of_optional_str (azure_deployment c))
        (of_optional_str (organization c)) (of_optional_str (api_version c))
        (callable_object (streaming_callback c)) (PDict (generation_kwargs c))
        (of_optional_str (system_prompt c)) (secret_object (api_key c))
        (secret_object (azure_ad_token c)) (PFloat (timeout c)) (PInt (max_retries c))
        (PDict (default_headers c)) (callable_object (azure_ad_token_provider c))))"
    unfolding reconstruct_wrapper
    by (simp only: secrets_round_trip [OF assms(2,3) key token] then_run.simps
        callback_round_trip [OF assms(4)] provider_round_trip [OF assms(5)])
  from init_passed_args [OF assms(1)] obtain k where
    k: "AzureOpenAI w env k = Inr (client c)" and
    again: "init w' env (passed_args c) =
              (case AzureOpenAI w' env k of
                 Inl msg \<Rightarrow> Inl (ClientError msg)
               | Inr cl \<Rightarrow> Inr (c\<lparr>client := cl\<rparr>))"
    by blast
  have "from_dict w' env (default_to_dict ?ip) = Some (init w' env (passed_args c))"
    unfolding from_dict_def r default_from_dict_def
    by (simp only: then_run.simps bind_keywords_document)
  with d k again have 1: ?round_trip by auto
  have 2: ?validation
  proof (intro allI impI, elim conjE)
    fix d ip b
    assume ip: "map_of d ''init_parameters'' = Some (PDict ip)"
      and b: "reconstructed_arguments (locatable w') d = Some (Inr b)"
    note v = document_validation(1) [OF ip b, of env] document_validation(2,3) [OF ip b]
    have f: "from_dict w' env d = Some (init w' env b)"
      unfolding from_dict_arguments b by simp
    show "(from_dict w' env d = Some (Inl (ConfigurationError EndpointMissing)) \<longleftrightarrow>
               (map_of ip ''azure_endpoint'' = None \<or>
                map_of ip ''azure_endpoint'' = Some PNone \<or>
                map_of ip ''azure_endpoint'' = Some (PStr [])) \<and>
               (env ''AZURE_OPENAI_ENDPOINT'' = None \<or>
                env ''AZURE_OPENAI_ENDPOINT'' = Some [])) \<and>
            (from_dict w' env d = Some (Inl (ConfigurationError CredentialMissing)) \<longleftrightarrow>
               \<not> ((map_of ip ''azure_endpoint'' = None \<or>
                   map_of ip ''azure_endpoint'' = Some PNone \<or>
                   map_of ip ''azure_endpoint'' = Some (PStr [])) \<and>
                  (env ''AZURE_OPENAI_ENDPOINT'' = None \<or>
                   env ''AZURE_OPENAI_ENDPOINT'' = Some [])) \<and>
               map_of ip ''api_key'' = Some PNone \<and>
               map_of ip ''azure_ad_token'' = Some PNone) \<and>
            (\<forall>c'. from_dict w' env d = Some (Inr c') \<longrightarrow>
               init w' env b = Inr c' \<and> azure_endpoint c' \<noteq> [] \<and>
               (api_key c' \<noteq> None \<or> azure_ad_token c' \<noteq> None))"
      unfolding f option.inject init_endpoint_missing_iff init_credential_missing_iff
        v [symmetric]
      using init_Inr_invariants [of w' env b] by auto
  qed
  show ?thesis by (rule conjI [OF 1 2])
qed


text \<open>
  A component built from the endpoint variable, with the default key reference (its variable
  set), no token and a locatable streaming callback, comes back unchanged on the platform of
  the examples, whose SDK constructor returns its arguments. And a document whose two
  credential entries are \<^verbatim>\<open>None\<close> is refused by the credential check.
\<close>

theorem round_trip_witness:
  "(\<exists>c d. init plain_platform
             [''AZURE_OPENAI_ENDPOINT'' \<mapsto> ''https://e'', ''AZURE_OPENAI_API_KEY'' \<mapsto> ''k'']
             (no_args\<lparr>arg_streaming_callback := Passed (Some (Callable ''builtins.print'')),
                      arg_azure_ad_token := Passed None\<rparr>) = Inr c \<and>
          to_dict c = Inr d \<and>
          from_dict plain_platform
            [''AZURE_OPENAI_ENDPOINT'' \<mapsto> ''https://e'', ''AZURE_OPENAI_API_KEY'' \<mapsto> ''k'']
            d = Some (Inr c)) \<and>
   from_dict plain_platform
     [''AZURE_OPENAI_ENDPOINT'' \<mapsto> ''https://e'', ''AZURE_OPENAI_API_KEY'' \<mapsto> ''k'']
     (default_to_dict [(''api_key'', PNone), (''azure_ad_token'', PNone)])
   = Some (Inl (ConfigurationError CredentialMissing))"
proof -
  let ?env =
    "[''AZURE_OPENAI_ENDPOINT'' \<mapsto> ''https://e'', ''AZURE_OPENAI_API_KEY'' \<mapsto> ''k'']"
  let ?a = "no_args\<lparr>arg_streaming_callback := Passed (Some (Callable ''builtins.print'')),
                    arg_azure_ad_token := Passed None\<rparr>"
  obtain c where c: "init plain_platform ?env ?a = Inr c"
    by (simp add: construction_def parameters_def plain_float_30 plain_int_5)
  from init_stored_fields [OF c]
  have f: "api_key c = Some (EnvVarSecret ''AZURE_OPENAI_API_KEY'' False)"
    "azure_ad_token c = None"
    "streaming_callback c = Some (Callable ''builtins.print'')"
    "azure_ad_token_provider c = None"
    by (simp_all add: parameters_def no_args_def from_env_var_def)
  have s: "serializable (api_key c)" "serializable (azure_ad_token c)"
    and i: "importable (locatable plain_platform) (streaming_callback c)"
      "importable (locatable plain_platform) (azure_ad_token_provider c)"
    by (simp_all add: f plain_platform_def)
  note rt = round_trip [OF c s i]
  from rt [THEN conjunct1] obtain d k where
    d: "to_dict c = Inr d" and
    k: "AzureOpenAI plain_platform ?env k = Inr (client c)" and
    again: "from_dict plain_platform ?env d =
       Some (case AzureOpenAI plain_platform ?env k of
               Inl msg \<Rightarrow> Inl (ClientError msg)
             | Inr cl \<Rightarrow> Inr (c\<lparr>client := cl\<rparr>))"
    by blast
  from k have "from_dict plain_platform ?env d = Some (Inr c)"
    unfolding again by simp
  with c d have 1: "\<exists>c d. init plain_platform ?env ?a = Inr c \<and> to_dict c = Inr d \<and>
      from_dict plain_platform ?env d = Some (Inr c)"
    by blast
  let ?ip = "[(''api_key'', PNone), (''azure_ad_token'', PNone)]"
  let ?b = "no_args\<lparr>arg_api_key := Passed None, arg_azure_ad_token := Passed None\<rparr>"
  have ip: "map_of (default_to_dict ?ip) ''init_parameters'' = Some (PDict ?ip)"
    by (simp add: default_to_dict_def)
  have b: "reconstructed_arguments (locatable plain_platform) (default_to_dict ?ip)
      = Some (Inr ?b)"
    by (simp add: reconstructed_arguments_def reconstruct_parameters_def default_to_dict_def
        deserialize_callable_entry_def bind_keywords_def parameter_names_def
        typed_arguments_def keyword_def no_args_def)
  from rt [THEN conjunct2, rule_format, OF conjI [OF ip b], THEN conjunct2, THEN conjunct1]
  have 2: "from_dict plain_platform ?env (default_to_dict ?ip)
      = Some (Inl (ConfigurationError CredentialMissing))"
    by simp
  show ?thesis by (rule conjI [OF 1 2])
qed

text \<open>
  The refusal is not an accident of how a literal's serialization is modelled. Whatever a
  literal is serialized to, if the serialized form does not reveal the value (and the
  specification forbids that it does), then no deserialization gets both of two literals back.
\<close>

lemma literal_cannot_round_trip:
  fixes ser :: "secret \<Rightarrow> 'd" and deser :: "'d \<Rightarrow> error + secret"
  assumes "ser (TokenSecret ''a'') = ser (TokenSecret ''b'')"
  shows "deser (ser (TokenSecret ''a'')) \<noteq> Inr (TokenSecret ''a'') \<or>
         deser (ser (TokenSecret ''b'')) \<noteq> Inr (TokenSecret ''b'')"
proof (rule ccontr)
  assume "\<not> ?thesis"
  then have "Inr (TokenSecret ''a'') = (Inr (TokenSecret ''b'') :: error + secret)"
    using assms by simp
  then show False by simp
qed

text \<open>
  C2 as stated fails: the component of the usage example of lines 39 to 42, whose key is a
  literal made by \<^verbatim>\<open>Secret.from_token\<close>, is constructed from an endpoint and one credential,
  and it has no document at all, since the literal's serialization is refused.
\<close>

theorem round_trip_counterexample:
  "(case init plain_platform Map.empty
           (no_args\<lparr>arg_azure_endpoint := Passed (Some ''https://e''),
                    arg_api_key := Passed (Some (from_token ''sk-1'')),
                    arg_azure_deployment := Passed (Some ''gpt-4o-mini'')\<rparr>) of
      Inl e \<Rightarrow> False
    | Inr c \<Rightarrow> to_dict c = Inl SerializationError)"
  by (simp add: construction_def parameters_def plain_float_30 plain_int_5 from_token_def
      to_dict_def)

end
